theory Spec2Isabelle
  imports Main "HOL-Library.Sublist" "HOL-Library.Char_ord" "HOL-Library.List_Lexorder"
    "HOL-Library.Multiset"
begin

section \<open>Strings, buffers and machine integers\<close>

text \<open>
  A \<open>StringRef\<close>, a \<open>std::string\<close> and the bytes of a \<open>MemoryBuffer\<close> are all
  modelled as \<open>string\<close> (a list of 8-bit characters).  \<open>size_t\<close> and \<open>uint64_t\<close> are
  natural numbers; where the source computes with them on input-controlled values the
  reduction modulo \<open>2 ^ 64\<close> is written out.
\<close>

definition OFFLOAD_BUNDLER_MAGIC_STR :: string where
  "OFFLOAD_BUNDLER_MAGIC_STR = ''__CLANG_OFFLOAD_BUNDLE__''"

definition npos :: nat where
  "npos = 2 ^ 64 - 1"

definition add64 :: "nat \<Rightarrow> nat \<Rightarrow> nat" where
  "add64 a b = (a + b) mod 2 ^ 64"

definition sub64 :: "nat \<Rightarrow> nat \<Rightarrow> nat" where
  "sub64 a b = (if b \<le> a then a - b else a + 2 ^ 64 - b) mod 2 ^ 64"

text \<open>First index at which \<open>Str\<close> starts inside the remaining text.\<close>

primrec find_first :: "string \<Rightarrow> string \<Rightarrow> nat option" where
  "find_first Str [] = (if Str = [] then Some 0 else None)"
| "find_first Str (c # cs) =
     (if prefix Str (c # cs) then Some 0 else map_option Suc (find_first Str cs))"

text \<open>\<open>StringRef::find(Str, From)\<close>: \<open>npos\<close> when \<open>From\<close> is past the end or there is
  no occurrence at or after \<open>From\<close>.\<close>

definition StringRef_find :: "string \<Rightarrow> string \<Rightarrow> nat \<Rightarrow> nat" where
  "StringRef_find FC Str From =
     (if From > length FC then npos
      else case find_first Str (drop From FC) of None \<Rightarrow> npos | Some i \<Rightarrow> From + i)"

text \<open>\<open>StringRef::split(char)\<close> cuts at the first separator, \<open>rsplit\<close> at the last one;
  without a separator the whole text is the first component.\<close>

definition StringRef_split :: "string \<Rightarrow> char \<Rightarrow> string \<times> string" where
  "StringRef_split s c = (takeWhile (\<lambda>x. x \<noteq> c) s, drop 1 (dropWhile (\<lambda>x. x \<noteq> c) s))"

definition StringRef_rsplit :: "string \<Rightarrow> char \<Rightarrow> string \<times> string" where
  "StringRef_rsplit s c =
     (if c \<in> set s
      then (rev (drop 1 (dropWhile (\<lambda>x. x \<noteq> c) (rev s))), rev (takeWhile (\<lambda>x. x \<noteq> c) (rev s)))
      else (s, []))"

definition ascii_tolower :: "char \<Rightarrow> char" where
  "ascii_tolower c =
     (let n = (of_char c :: nat) in if 65 \<le> n \<and> n \<le> 90 then char_of (n + 32) else c)"

definition starts_with_insensitive :: "string \<Rightarrow> string \<Rightarrow> bool" where
  "starts_with_insensitive s p =
     (length p \<le> length s \<and> map ascii_tolower (take (length p) s) = map ascii_tolower p)"

section \<open>Failures\<close>

text \<open>
  An \<open>llvm::Error\<close> returned to the caller is \<open>FileError\<close> or \<open>StringError\<close>.  The two
  other constructors are the abnormal exits of the C++ code: a failed \<open>assert\<close>, and
  undefined behaviour (a read outside a buffer, the use of an iterator that does not
  point into its container).
\<close>

datatype failure =
    FileError string
  | StringError string
  | AssertionFailed string
  | UndefinedBehaviour string

section \<open>Configuration and collaborators\<close>

record OffloadBundlerConfig =
  AllowNoHost :: bool
  AllowMissingBundles :: bool
  PrintExternalCommands :: bool
  HipOpenmpCompatible :: bool
  BundleAlignment :: nat
  HostInputIndex :: nat
  FilesType :: string
  ObjcopyPath :: string
  TargetNames :: "string list"
  InputFileNames :: "string list"
  OutputFileNames :: "string list"

text \<open>The sentinel \<open>~0u\<close> of the 32-bit \<open>HostInputIndex\<close>.\<close>

definition no_host_index :: nat where
  "no_host_index = 2 ^ 32 - 1"

text \<open>
  \<open>llvm::Triple\<close> as the four component names the constructor of \<open>OffloadTargetInfo\<close>
  hands to the four-argument constructor.
\<close>

record llvm_Triple =
  getArchName :: string
  getVendorName :: string
  getOSName :: string
  getEnvironmentName :: string

text \<open>A section of an object file: its name and its contents, each of which the
  object-file reader may fail to deliver.\<close>

record SectionRef =
  getName :: "failure + string"
  getContents :: "failure + string"

text \<open>
  Modelled from the spec: the library code this file calls and that is not part of it.
  \<^item> \<open>StringToCudaArch_known s\<close>: \<open>clang::StringToCudaArch(s) != CudaArch::UNKNOWN\<close>
    (the GPU-architecture enumeration);
  \<^item> \<open>Triple_isCompatibleWith\<close>: the triple library's compatibility relation;
  \<^item> \<open>isCompatibleTargetID\<close>: the target-ID compatibility helper;
  \<^item> \<open>bucket_order\<close>: the order in which \<open>llvm::StringMap\<close> iterates over the keys it
    was given (argument: the keys in insertion order), which is the order of its hash
    buckets;
  \<^item> \<open>createBinary\<close>: the sections of a buffer that \<open>createBinary\<close> recognises as an
    object file, \<open>None\<close> for any other buffer;
  \<^item> \<open>createTemporaryFile\<close>: the path of a fresh temporary file holding the given
    bytes, or the failure to create it;
  \<^item> \<open>ExecuteAndWait\<close>: the exit code of the external \<open>llvm-objcopy\<close> run with an
    argument vector, and the bytes it leaves in the output file;
  \<^item> \<open>can_open_for_write\<close>: whether a \<open>raw_fd_ostream\<close> on a path opens without error;
  \<^item> \<open>ENABLE_CLASSIC_FLANG\<close>: the build flag of the same name.
\<close>

record collab =
  StringToCudaArch_known :: "string \<Rightarrow> bool"
  Triple_isCompatibleWith :: "llvm_Triple \<Rightarrow> llvm_Triple \<Rightarrow> bool"
  isCompatibleTargetID :: "string \<Rightarrow> string \<Rightarrow> bool"
  bucket_order :: "string list \<Rightarrow> string list"
  createBinary :: "string \<Rightarrow> SectionRef list option"
  createTemporaryFile :: "string \<Rightarrow> failure + string"
  ExecuteAndWait :: "string \<Rightarrow> string list \<Rightarrow> nat \<times> string"
  can_open_for_write :: "string \<Rightarrow> bool"
  ENABLE_CLASSIC_FLANG :: bool

section \<open>Target identifiers\<close>

text \<open>Modelled from the spec: \<open>llvm::Triple(Str)\<close> takes the text up to the first,
  second and third \<open>-\<close> as architecture, vendor and OS, and the rest as environment.\<close>

definition Triple_parse :: "string \<Rightarrow> llvm_Triple" where
  "Triple_parse s =
     (let (a, r1) = StringRef_split s (CHR ''-'');
          (v, r2) = StringRef_split r1 (CHR ''-'');
          (os, e) = StringRef_split r2 (CHR ''-'')
      in \<lparr>getArchName = a, getVendorName = v, getOSName = os, getEnvironmentName = e\<rparr>)"

definition Triple_str :: "llvm_Triple \<Rightarrow> string" where
  "Triple_str t =
     getArchName t @ ''-'' @ getVendorName t @ ''-'' @ getOSName t @ ''-'' @ getEnvironmentName t"

record OffloadTargetInfo =
  OffloadKind :: string
  Triple :: llvm_Triple
  TargetID :: string

text \<open>The constructor \<open>OffloadTargetInfo(Target, BC)\<close>.\<close>

definition OffloadTargetInfo_of :: "collab \<Rightarrow> string \<Rightarrow> OffloadTargetInfo" where
  "OffloadTargetInfo_of E Target =
     (let TargetFeatures = StringRef_split Target (CHR '':'');
          TripleOrGPU = StringRef_rsplit (fst TargetFeatures) (CHR ''-'')
      in if StringToCudaArch_known E (snd TripleOrGPU)
         then (let KindTriple = StringRef_split (fst TripleOrGPU) (CHR ''-'')
               in \<lparr>OffloadKind = fst KindTriple,
                   Triple = Triple_parse (snd KindTriple),
                   TargetID = drop (StringRef_find Target (snd TripleOrGPU) 0) Target\<rparr>)
         else (let KindTriple = StringRef_split (fst TargetFeatures) (CHR ''-'')
               in \<lparr>OffloadKind = fst KindTriple,
                   Triple = Triple_parse (snd KindTriple),
                   TargetID = []\<rparr>))"

definition hasHostKind :: "OffloadTargetInfo \<Rightarrow> bool" where
  "hasHostKind T = (OffloadKind T = ''host'')"

definition isOffloadKindValid :: "OffloadTargetInfo \<Rightarrow> bool" where
  "isOffloadKindValid T =
     (OffloadKind T = ''host'' \<or> OffloadKind T = ''openmp'' \<or>
      OffloadKind T = ''hip'' \<or> OffloadKind T = ''hipv4'')"

definition isOffloadKindCompatible ::
  "OffloadBundlerConfig \<Rightarrow> OffloadTargetInfo \<Rightarrow> string \<Rightarrow> bool" where
  "isOffloadKindCompatible BC T TargetOffloadKind =
     (if OffloadKind T = TargetOffloadKind then True
      else if HipOpenmpCompatible BC
      then (let HIPCompatibleWithOpenMP =
                  (starts_with_insensitive (OffloadKind T) ''hip'' \<and> TargetOffloadKind = ''openmp'');
                OpenMPCompatibleWithHIP =
                  (OffloadKind T = ''openmp'' \<and> starts_with_insensitive TargetOffloadKind ''hip'')
            in HIPCompatibleWithOpenMP \<or> OpenMPCompatibleWithHIP)
      else False)"

text \<open>\<open>OffloadTargetInfo::operator==\<close>.\<close>

definition OffloadTargetInfo_eq ::
  "collab \<Rightarrow> OffloadTargetInfo \<Rightarrow> OffloadTargetInfo \<Rightarrow> bool" where
  "OffloadTargetInfo_eq E A B =
     (OffloadKind A = OffloadKind B \<and> Triple_isCompatibleWith E (Triple A) (Triple B) \<and>
      TargetID A = TargetID B)"

definition OffloadTargetInfo_str :: "OffloadTargetInfo \<Rightarrow> string" where
  "OffloadTargetInfo_str T = OffloadKind T @ ''-'' @ Triple_str (Triple T) @ ''-'' @ TargetID T"

definition isCodeObjectCompatible ::
  "collab \<Rightarrow> OffloadBundlerConfig \<Rightarrow> OffloadTargetInfo \<Rightarrow> OffloadTargetInfo \<Rightarrow> bool" where
  "isCodeObjectCompatible E BC CodeObjectInfo TargetInfo =
     (if OffloadTargetInfo_eq E CodeObjectInfo TargetInfo then True
      else if \<not> isOffloadKindCompatible BC CodeObjectInfo (OffloadKind TargetInfo) \<or>
              \<not> Triple_isCompatibleWith E (Triple CodeObjectInfo) (Triple TargetInfo) then False
      else if \<not> isCompatibleTargetID E (TargetID CodeObjectInfo) (TargetID TargetInfo) then False
      else True)"


section \<open>Output streams\<close>

text \<open>
  Modelled from the spec: the output is a seekable sink.  A \<open>raw_fd_ostream\<close> is the
  bytes of its file and the position of the next write.  Writing past the end of the file
  after a \<open>seek\<close> fills the gap with zero bytes; writing no bytes leaves the file as it
  is, also after a \<open>seek\<close> past its end.
\<close>

record raw_fd_ostream =
  contents :: string
  position :: nat

definition ostream_new :: raw_fd_ostream where
  "ostream_new = \<lparr>contents = [], position = 0\<rparr>"

definition ostream_write :: "raw_fd_ostream \<Rightarrow> string \<Rightarrow> raw_fd_ostream" where
  "ostream_write OS s =
     (if s = [] then OS
      else \<lparr>contents = take (position OS) (contents OS) @
                        replicate (position OS - length (contents OS)) (CHR 0x00) @ s @
                        drop (position OS + length s) (contents OS),
            position = position OS + length s\<rparr>)"

definition ostream_seek :: "raw_fd_ostream \<Rightarrow> nat \<Rightarrow> raw_fd_ostream" where
  "ostream_seek OS off = OS\<lparr>position := off\<rparr>"

text \<open>Little-endian bytes of an integer, and the value of little-endian bytes.\<close>

fun le_bytes :: "nat \<Rightarrow> nat \<Rightarrow> string" where
  "le_bytes 0 v = []"
| "le_bytes (Suc k) v = char_of v # le_bytes k (v div 256)"

fun le_value :: "string \<Rightarrow> nat" where
  "le_value [] = 0"
| "le_value (c # cs) = of_char c + 256 * le_value cs"

text \<open>\<open>Read8byteIntegerFromBuffer\<close> reads the eight bytes at \<open>pos\<close>; the source leaves
  the bounds check to its caller, so a read outside the buffer is undefined behaviour.\<close>

definition Read8byteIntegerFromBuffer :: "string \<Rightarrow> nat \<Rightarrow> failure + nat" where
  "Read8byteIntegerFromBuffer Buffer pos =
     (if pos + 8 \<le> length Buffer then Inr (le_value (take 8 (drop pos Buffer)))
      else Inl (UndefinedBehaviour ''read64le outside the buffer''))"

definition Write8byteIntegerToBuffer :: "raw_fd_ostream \<Rightarrow> nat \<Rightarrow> raw_fd_ostream" where
  "Write8byteIntegerToBuffer OS Val = ostream_write OS (le_bytes 8 Val)"

text \<open>
  Modelled from the spec: \<open>llvm::alignTo\<close> rounds its value up to a multiple of the
  alignment.  It asserts that the alignment is not zero and computes
  \<open>(Value + Align - 1) / Align * Align\<close> in 64 bits.
\<close>

definition alignTo :: "nat \<Rightarrow> nat \<Rightarrow> failure + nat" where
  "alignTo Value Align =
     (if Align = 0 then Inl (AssertionFailed ''Align must be non-zero'')
      else Inr ((Value + Align - 1) mod 2 ^ 64 div Align * Align))"

section \<open>String maps\<close>

text \<open>
  Modelled from the spec: bundles are indexed by triple in an \<open>llvm::StringMap\<close>.  The
  map is the list of its entries in insertion order, with distinct keys; the iteration
  order is that of the hash buckets, given by the collaborator \<open>bucket_order\<close>.
  An iterator is a position in the iteration order.  \<open>ItNull\<close> is the iterator holding a
  null bucket pointer: a default-constructed iterator, and also \<open>begin()\<close> and \<open>end()\<close> of
  a map that never allocated its table.
\<close>

type_synonym 'v StringMap = "(string \<times> 'v) list"

datatype StringMap_iterator = ItNull | It nat

definition StringMap_contains :: "'v StringMap \<Rightarrow> string \<Rightarrow> bool" where
  "StringMap_contains m k = (map_of m k \<noteq> None)"

definition StringMap_assign :: "'v StringMap \<Rightarrow> string \<Rightarrow> 'v \<Rightarrow> 'v StringMap" where
  "StringMap_assign m k v =
     (if map_of m k = None then m @ [(k, v)]
      else map (\<lambda>(k', v'). if k' = k then (k', v) else (k', v')) m)"


definition StringMap_iteration :: "collab \<Rightarrow> 'v StringMap \<Rightarrow> (string \<times> 'v) list" where
  "StringMap_iteration E m =
     List.map_filter (\<lambda>k. map_option (Pair k) (map_of m k)) (bucket_order E (map fst m))"

definition StringMap_begin :: "'v StringMap \<Rightarrow> StringMap_iterator" where
  "StringMap_begin m = (if m = [] then ItNull else It 0)"

definition StringMap_end :: "'v StringMap \<Rightarrow> StringMap_iterator" where
  "StringMap_end m = (if m = [] then ItNull else It (length m))"

text \<open>Dereferencing an iterator: undefined unless it points at an entry.\<close>

definition StringMap_deref ::
  "collab \<Rightarrow> 'v StringMap \<Rightarrow> StringMap_iterator \<Rightarrow> failure + (string \<times> 'v)" where
  "StringMap_deref E m it =
     (case it of
        ItNull \<Rightarrow> Inl (UndefinedBehaviour ''null StringMap iterator'')
      | It i \<Rightarrow> if i < length (StringMap_iteration E m) then Inr (StringMap_iteration E m ! i)
                else Inl (UndefinedBehaviour ''StringMap iterator past the end''))"

section \<open>The binary container\<close>

record BinaryBundleInfo =
  Size :: nat
  Offset :: nat

record BinaryFileHandler =
  BundlesInfo :: "BinaryBundleInfo StringMap"
  CurBundleInfo :: StringMap_iterator
  NextBundleInfo :: StringMap_iterator
  CurWriteBundleTarget :: string

definition BinaryFileHandler_new :: BinaryFileHandler where
  "BinaryFileHandler_new =
     \<lparr>BundlesInfo = [], CurBundleInfo = ItNull, NextBundleInfo = ItNull,
      CurWriteBundleTarget = []\<rparr>"

text \<open>The loop of \<open>ReadHeader\<close> over the records.  An early \<open>return Error::success()\<close>
  is \<open>Inr (False, \<dots>)\<close>, leaving the loop at its end is \<open>Inr (True, \<dots>)\<close>; both carry
  the entries stored so far.\<close>

function Binary_ReadHeader_loop ::
  "string \<Rightarrow> nat \<Rightarrow> nat \<Rightarrow> nat \<Rightarrow> BinaryBundleInfo StringMap \<Rightarrow>
   failure + (bool \<times> BinaryBundleInfo StringMap)" where
  "Binary_ReadHeader_loop FC NumberOfBundles i ReadChars0 BI =
     (if \<not> i < NumberOfBundles then Inr (True, BI)
      else if add64 ReadChars0 8 > length FC then Inr (False, BI)
      else case Read8byteIntegerFromBuffer FC ReadChars0 of Inl e \<Rightarrow> Inl e | Inr Off \<Rightarrow>
        let ReadChars1 = add64 ReadChars0 8 in
        if add64 ReadChars1 8 > length FC then Inr (False, BI)
        else case Read8byteIntegerFromBuffer FC ReadChars1 of Inl e \<Rightarrow> Inl e | Inr Sz \<Rightarrow>
        let ReadChars2 = add64 ReadChars1 8 in
        if add64 ReadChars2 8 > length FC then Inr (False, BI)
        else case Read8byteIntegerFromBuffer FC ReadChars2 of Inl e \<Rightarrow> Inl e | Inr TripleSize \<Rightarrow>
        let ReadChars3 = add64 ReadChars2 8 in
        if add64 ReadChars3 TripleSize > length FC then Inr (False, BI)
        else
        let ReadChars4 = add64 ReadChars3 TripleSize in
        if Off = 0 \<or> add64 Off Sz > length FC then Inr (False, BI)
        else if \<not> ReadChars3 + TripleSize \<le> length FC
        then Inl (UndefinedBehaviour ''triple outside the buffer'')
        else
        let Tr = take TripleSize (drop ReadChars3 FC) in
        if StringMap_contains BI Tr then Inl (AssertionFailed ''Triple is duplicated??'')
        else Binary_ReadHeader_loop FC NumberOfBundles (i + 1) ReadChars4
               (StringMap_assign BI Tr \<lparr>Size = Sz, Offset = Off\<rparr>))"
  by pat_completeness auto
termination
  by (relation "measure (\<lambda>(FC, n, i, rc, bi). n - i)") auto

declare Binary_ReadHeader_loop.simps [simp del]

definition Binary_ReadHeader ::
  "BinaryFileHandler \<Rightarrow> string \<Rightarrow> failure + BinaryFileHandler" where
  "Binary_ReadHeader FH FC =
     (let FH1 = FH\<lparr>CurBundleInfo := StringMap_end (BundlesInfo FH)\<rparr>;
          ReadChars0 = length OFFLOAD_BUNDLER_MAGIC_STR
      in if ReadChars0 > length FC then Inr FH1
         else if take (length OFFLOAD_BUNDLER_MAGIC_STR) FC \<noteq> OFFLOAD_BUNDLER_MAGIC_STR then Inr FH1
         else if ReadChars0 + 8 > length FC then Inr FH1
         else case Read8byteIntegerFromBuffer FC ReadChars0 of Inl e \<Rightarrow> Inl e | Inr NumberOfBundles \<Rightarrow>
           (case Binary_ReadHeader_loop FC NumberOfBundles 0 (ReadChars0 + 8) (BundlesInfo FH1) of
              Inl e \<Rightarrow> Inl e
            | Inr (False, BI) \<Rightarrow> Inr (FH1\<lparr>BundlesInfo := BI\<rparr>)
            | Inr (True, BI) \<Rightarrow>
                Inr (FH1\<lparr>BundlesInfo := BI, CurBundleInfo := StringMap_end BI,
                        NextBundleInfo := StringMap_begin BI\<rparr>)))"

definition Binary_ReadBundleStart ::
  "collab \<Rightarrow> BinaryFileHandler \<Rightarrow> failure + (string option \<times> BinaryFileHandler)" where
  "Binary_ReadBundleStart E FH =
     (if NextBundleInfo FH = StringMap_end (BundlesInfo FH) then Inr (None, FH)
      else case StringMap_deref E (BundlesInfo FH) (NextBundleInfo FH) of
             Inl e \<Rightarrow> Inl e
           | Inr entry \<Rightarrow>
               Inr (Some (fst entry),
                    FH\<lparr>CurBundleInfo := NextBundleInfo FH,
                       NextBundleInfo := (case NextBundleInfo FH of ItNull \<Rightarrow> ItNull
                                          | It i \<Rightarrow> It (i + 1))\<rparr>))"

definition Binary_ReadBundleEnd :: "BinaryFileHandler \<Rightarrow> failure + BinaryFileHandler" where
  "Binary_ReadBundleEnd FH =
     (if CurBundleInfo FH = StringMap_end (BundlesInfo FH)
      then Inl (AssertionFailed ''Invalid reader info!'') else Inr FH)"

definition Binary_ReadBundle ::
  "collab \<Rightarrow> BinaryFileHandler \<Rightarrow> raw_fd_ostream \<Rightarrow> string \<Rightarrow>
   failure + (BinaryFileHandler \<times> raw_fd_ostream)" where
  "Binary_ReadBundle E FH OS FC =
     (if CurBundleInfo FH = StringMap_end (BundlesInfo FH)
      then Inl (AssertionFailed ''Invalid reader info!'')
      else case StringMap_deref E (BundlesInfo FH) (CurBundleInfo FH) of
             Inl e \<Rightarrow> Inl e
           | Inr entry \<Rightarrow>
               if Offset (snd entry) + Size (snd entry) \<le> length FC
               then Inr (FH, ostream_write OS (take (Size (snd entry)) (drop (Offset (snd entry)) FC)))
               else Inl (UndefinedBehaviour ''bundle outside the buffer''))"

text \<open>The loop of \<open>WriteHeader\<close> over the target names, \<open>Inputs\<close> running over the input
  buffers beside it.  The cursor \<open>HeaderSize\<close> is a 64-bit integer.\<close>

fun Binary_WriteHeader_loop ::
  "nat \<Rightarrow> string list \<Rightarrow> string list \<Rightarrow> nat \<Rightarrow> raw_fd_ostream \<Rightarrow> BinaryBundleInfo StringMap \<Rightarrow>
   failure + (nat \<times> raw_fd_ostream \<times> BinaryBundleInfo StringMap)" where
  "Binary_WriteHeader_loop A [] Inputs HeaderSize OS BI = Inr (HeaderSize, OS, BI)"
| "Binary_WriteHeader_loop A (T # Ts) [] HeaderSize OS BI =
     Inl (UndefinedBehaviour ''Inputs[Idx] outside the array'')"
| "Binary_WriteHeader_loop A (T # Ts) (MB # MBs) HeaderSize OS BI =
     (case alignTo HeaderSize A of
        Inl e \<Rightarrow> Inl e
      | Inr HeaderSize1 \<Rightarrow>
          let OS1 = Write8byteIntegerToBuffer OS HeaderSize1;
              OS2 = Write8byteIntegerToBuffer OS1 (length MB);
              BI1 = StringMap_assign BI T \<lparr>Size = length MB, Offset = HeaderSize1\<rparr>;
              HeaderSize2 = add64 HeaderSize1 (length MB);
              OS3 = Write8byteIntegerToBuffer OS2 (length T);
              OS4 = ostream_write OS3 T
          in Binary_WriteHeader_loop A Ts MBs HeaderSize2 OS4 BI1)"

definition Binary_WriteHeader ::
  "OffloadBundlerConfig \<Rightarrow> BinaryFileHandler \<Rightarrow> raw_fd_ostream \<Rightarrow> string list \<Rightarrow>
   failure + (BinaryFileHandler \<times> raw_fd_ostream)" where
  "Binary_WriteHeader BC FH OS Inputs =
     (let HeaderSize = (length OFFLOAD_BUNDLER_MAGIC_STR + 8 +
                        sum_list (map (\<lambda>T. 3 * 8 + length T) (TargetNames BC))) mod 2 ^ 64;
          OS1 = ostream_write OS OFFLOAD_BUNDLER_MAGIC_STR;
          OS2 = Write8byteIntegerToBuffer OS1 (length (TargetNames BC))
      in case Binary_WriteHeader_loop (BundleAlignment BC) (TargetNames BC) Inputs HeaderSize OS2
                (BundlesInfo FH) of
           Inl e \<Rightarrow> Inl e
         | Inr (HeaderSize', OS', BI') \<Rightarrow> Inr (FH\<lparr>BundlesInfo := BI'\<rparr>, OS'))"

definition Binary_WriteBundleStart :: "BinaryFileHandler \<Rightarrow> string \<Rightarrow> BinaryFileHandler" where
  "Binary_WriteBundleStart FH TargetTriple = FH\<lparr>CurWriteBundleTarget := TargetTriple\<rparr>"

text \<open>\<open>BundlesInfo[CurWriteBundleTarget]\<close> stores a default entry (size and offset zero)
  for a key that is not in the map yet.\<close>

definition Binary_WriteBundle ::
  "BinaryFileHandler \<Rightarrow> raw_fd_ostream \<Rightarrow> string \<Rightarrow> BinaryFileHandler \<times> raw_fd_ostream" where
  "Binary_WriteBundle FH OS Input =
     (case map_of (BundlesInfo FH) (CurWriteBundleTarget FH) of
        Some BI \<Rightarrow> (FH, ostream_write (ostream_seek OS (Offset BI)) Input)
      | None \<Rightarrow>
          (FH\<lparr>BundlesInfo := BundlesInfo FH @ [(CurWriteBundleTarget FH, \<lparr>Size = 0, Offset = 0\<rparr>)]\<rparr>,
           ostream_write (ostream_seek OS 0) Input))"


section \<open>The text container\<close>

record TextFileHandler =
  Comment :: string
  BundleStartString :: string
  BundleEndString :: string
  ReadChars :: nat

text \<open>The constructor \<open>TextFileHandler(Comment)\<close>.\<close>

definition TextFileHandler_new :: "string \<Rightarrow> TextFileHandler" where
  "TextFileHandler_new Cmt =
     \<lparr>Comment = Cmt,
      BundleStartString = [CHR 0x0A] @ Cmt @ '' '' @ OFFLOAD_BUNDLER_MAGIC_STR @ ''__START__ '',
      BundleEndString = [CHR 0x0A] @ Cmt @ '' '' @ OFFLOAD_BUNDLER_MAGIC_STR @ ''__END__ '',
      ReadChars = 0\<rparr>"

definition Text_ReadBundleStart ::
  "TextFileHandler \<Rightarrow> string \<Rightarrow> string option \<times> TextFileHandler" where
  "Text_ReadBundleStart FH FC =
     (let ReadChars1 = StringRef_find FC (BundleStartString FH) (ReadChars FH)
      in if ReadChars1 = npos then (None, FH\<lparr>ReadChars := ReadChars1\<rparr>)
         else let TripleStart = add64 ReadChars1 (length (BundleStartString FH));
                  TripleEnd = StringRef_find FC [CHR 0x0A] TripleStart
              in if TripleEnd = npos then (None, FH\<lparr>ReadChars := TripleEnd\<rparr>)
                 else (Some (take (TripleEnd - TripleStart) (drop TripleStart FC)),
                       FH\<lparr>ReadChars := add64 TripleEnd 1\<rparr>))"

text \<open>\<open>FC[ReadChars]\<close> asserts that the index is inside the buffer.\<close>

definition Text_ReadBundleEnd :: "TextFileHandler \<Rightarrow> string \<Rightarrow> failure + TextFileHandler" where
  "Text_ReadBundleEnd FH FC =
     (if \<not> (ReadChars FH < length FC \<and> FC ! ReadChars FH = CHR 0x0A)
      then Inl (AssertionFailed ''The bundle should end with a new line.'')
      else let TripleEnd = StringRef_find FC [CHR 0x0A] (add64 (ReadChars FH) 1)
           in if TripleEnd \<noteq> npos then Inr (FH\<lparr>ReadChars := add64 TripleEnd 1\<rparr>)
              else Inr (FH\<lparr>ReadChars := TripleEnd\<rparr>))"

text \<open>\<open>ReadBundle\<close> builds the \<open>StringRef\<close> of length \<open>BundleEnd - BundleStart\<close> at
  \<open>BundleStart\<close> without looking at the result of \<open>find\<close>, and writes it.\<close>

definition Text_ReadBundle ::
  "TextFileHandler \<Rightarrow> raw_fd_ostream \<Rightarrow> string \<Rightarrow> failure + (TextFileHandler \<times> raw_fd_ostream)" where
  "Text_ReadBundle FH OS FC =
     (let BundleStart = ReadChars FH;
          BundleEnd = StringRef_find FC (BundleEndString FH) (ReadChars FH);
          len = sub64 BundleEnd BundleStart
      in if BundleStart + len \<le> length FC
         then Inr (FH\<lparr>ReadChars := BundleEnd\<rparr>, ostream_write OS (take len (drop BundleStart FC)))
         else Inl (UndefinedBehaviour ''bundle outside the buffer''))"

definition Text_WriteBundleStart ::
  "TextFileHandler \<Rightarrow> raw_fd_ostream \<Rightarrow> string \<Rightarrow> raw_fd_ostream" where
  "Text_WriteBundleStart FH OS TargetTriple =
     ostream_write (ostream_write (ostream_write OS (BundleStartString FH)) TargetTriple) [CHR 0x0A]"

definition Text_WriteBundleEnd ::
  "TextFileHandler \<Rightarrow> raw_fd_ostream \<Rightarrow> string \<Rightarrow> raw_fd_ostream" where
  "Text_WriteBundleEnd FH OS TargetTriple =
     ostream_write (ostream_write (ostream_write OS (BundleEndString FH)) TargetTriple) [CHR 0x0A]"

definition Text_WriteBundle :: "raw_fd_ostream \<Rightarrow> string \<Rightarrow> raw_fd_ostream" where
  "Text_WriteBundle OS Input = ostream_write OS Input"

definition Text_listBundleIDsCallback ::
  "TextFileHandler \<Rightarrow> string \<Rightarrow> failure + TextFileHandler" where
  "Text_listBundleIDsCallback FH FC =
     Text_ReadBundleEnd (FH\<lparr>ReadChars := StringRef_find FC (BundleEndString FH) (ReadChars FH)\<rparr>) FC"

section \<open>The object-file container\<close>

text \<open>\<open>CurrentSection\<close> and \<open>NextSection\<close> are positions in the section list of the
  object.\<close>

record ObjectFileHandler =
  Obj :: "SectionRef list"
  NumberOfInputs :: nat
  NumberOfProcessedInputs :: nat
  CurrentSection :: nat
  NextSection :: nat

definition ObjectFileHandler_new :: "SectionRef list \<Rightarrow> ObjectFileHandler" where
  "ObjectFileHandler_new ObjIn =
     \<lparr>Obj = ObjIn, NumberOfInputs = 0, NumberOfProcessedInputs = 0,
      CurrentSection = 0, NextSection = 0\<rparr>"

definition IsOffloadSection :: "SectionRef \<Rightarrow> failure + string option" where
  "IsOffloadSection CurSection =
     (case getName CurSection of
        Inl e \<Rightarrow> Inl e
      | Inr Name \<Rightarrow>
          if \<not> prefix OFFLOAD_BUNDLER_MAGIC_STR Name then Inr None
          else Inr (Some (drop (length OFFLOAD_BUNDLER_MAGIC_STR) Name)))"

function Object_ReadBundleStart ::
  "ObjectFileHandler \<Rightarrow> failure + (string option \<times> ObjectFileHandler)" where
  "Object_ReadBundleStart FH =
     (if \<not> NextSection FH < length (Obj FH) then Inr (None, FH)
      else let FH1 = FH\<lparr>CurrentSection := NextSection FH, NextSection := NextSection FH + 1\<rparr>
           in case IsOffloadSection (Obj FH ! CurrentSection FH1) of
                Inl e \<Rightarrow> Inl e
              | Inr (Some Tr) \<Rightarrow> Inr (Some Tr, FH1)
              | Inr None \<Rightarrow> Object_ReadBundleStart FH1)"
  by pat_completeness auto
termination
  by (relation "measure (\<lambda>FH. length (Obj FH) - NextSection FH)") auto

declare Object_ReadBundleStart.simps [simp del]

definition Object_ReadBundle ::
  "ObjectFileHandler \<Rightarrow> raw_fd_ostream \<Rightarrow> string \<Rightarrow>
   failure + (ObjectFileHandler \<times> raw_fd_ostream)" where
  "Object_ReadBundle FH OS Input =
     (if \<not> CurrentSection FH < length (Obj FH)
      then Inl (UndefinedBehaviour ''section iterator past the end'')
      else case getContents (Obj FH ! CurrentSection FH) of
             Inl e \<Rightarrow> Inl e
           | Inr Content \<Rightarrow>
               if Content = [CHR 0x00] then Inr (FH, ostream_write OS Input)
               else Inr (FH, ostream_write OS Content))"

definition Object_WriteHeader ::
  "OffloadBundlerConfig \<Rightarrow> ObjectFileHandler \<Rightarrow> string list \<Rightarrow> failure + ObjectFileHandler" where
  "Object_WriteHeader BC FH Inputs =
     (if HostInputIndex BC = no_host_index
      then Inl (AssertionFailed ''Host input index not defined.'')
      else Inr (FH\<lparr>NumberOfInputs := length Inputs\<rparr>))"

text \<open>The argument vector of \<open>llvm-objcopy\<close>, built by the loop over the inputs.\<close>

fun Object_objcopy_sections ::
  "collab \<Rightarrow> OffloadBundlerConfig \<Rightarrow> nat list \<Rightarrow> failure + string list" where
  "Object_objcopy_sections E BC [] = Inr []"
| "Object_objcopy_sections E BC (I # Is) =
     (if \<not> (I < length (InputFileNames BC) \<and> I < length (TargetNames BC))
      then Inl (UndefinedBehaviour ''InputFileNames[I] or TargetNames[I] outside the array'')
      else case (if I = HostInputIndex BC then createTemporaryFile E [CHR 0x00]
                 else Inr (InputFileNames BC ! I)) of
             Inl e \<Rightarrow> Inl e
           | Inr InputFile \<Rightarrow>
               (case Object_objcopy_sections E BC Is of
                  Inl e \<Rightarrow> Inl e
                | Inr rest \<Rightarrow>
                    Inr ((''--add-section='' @ OFFLOAD_BUNDLER_MAGIC_STR @ TargetNames BC ! I @
                            ''='' @ InputFile) #
                         (''--set-section-flags='' @ OFFLOAD_BUNDLER_MAGIC_STR @ TargetNames BC ! I @
                            ''=readonly,exclude'') # rest)))"

definition Object_WriteBundleEnd ::
  "collab \<Rightarrow> OffloadBundlerConfig \<Rightarrow> ObjectFileHandler \<Rightarrow> raw_fd_ostream \<Rightarrow>
   failure + (ObjectFileHandler \<times> raw_fd_ostream)" where
  "Object_WriteBundleEnd E BC FH OS =
     (if \<not> NumberOfProcessedInputs FH \<le> NumberOfInputs FH
      then Inl (AssertionFailed ''Processing more inputs that actually exist!'')
      else if HostInputIndex BC = no_host_index
      then Inl (AssertionFailed ''Host input index not defined.'')
      else if NumberOfProcessedInputs FH \<noteq> NumberOfInputs FH then Inr (FH, OS)
      else if ObjcopyPath BC = [] then Inl (AssertionFailed ''llvm-objcopy path not specified'')
      else case Object_objcopy_sections E BC [0..<NumberOfInputs FH] of
             Inl e \<Rightarrow> Inl e
           | Inr sections \<Rightarrow>
               if \<not> HostInputIndex BC < length (InputFileNames BC) \<or> OutputFileNames BC = []
               then Inl (UndefinedBehaviour ''file name outside the array'')
               else let ObjcopyArgs = [''llvm-objcopy''] @ sections @
                          [''--'', InputFileNames BC ! HostInputIndex BC, hd (OutputFileNames BC)]
                    in if PrintExternalCommands BC then Inr (FH, OS)
                       else case ExecuteAndWait E (ObjcopyPath BC) ObjcopyArgs of
                              (rc, out) \<Rightarrow>
                                if rc \<noteq> 0 then Inl (StringError ''llvm-objcopy tool failed'')
                                else Inr (FH, OS\<lparr>contents := out\<rparr>))"

section \<open>The uniform handler interface\<close>

datatype FileHandler =
    BinaryFH BinaryFileHandler
  | TextFH TextFileHandler
  | ObjectFH ObjectFileHandler

definition ReadHeader :: "FileHandler \<Rightarrow> string \<Rightarrow> failure + FileHandler" where
  "ReadHeader FH Input =
     (case FH of
        BinaryFH bh \<Rightarrow> (case Binary_ReadHeader bh Input of Inl e \<Rightarrow> Inl e | Inr bh1 \<Rightarrow> Inr (BinaryFH bh1))
      | TextFH th \<Rightarrow> Inr (TextFH th)
      | ObjectFH oh \<Rightarrow> Inr (ObjectFH oh))"

definition ReadBundleStart ::
  "collab \<Rightarrow> FileHandler \<Rightarrow> string \<Rightarrow> failure + (string option \<times> FileHandler)" where
  "ReadBundleStart E FH Input =
     (case FH of
        BinaryFH bh \<Rightarrow> (case Binary_ReadBundleStart E bh of
                         Inl e \<Rightarrow> Inl e | Inr (r, bh1) \<Rightarrow> Inr (r, BinaryFH bh1))
      | TextFH th \<Rightarrow> (case Text_ReadBundleStart th Input of (r, th1) \<Rightarrow> Inr (r, TextFH th1))
      | ObjectFH oh \<Rightarrow> (case Object_ReadBundleStart oh of
                         Inl e \<Rightarrow> Inl e | Inr (r, oh1) \<Rightarrow> Inr (r, ObjectFH oh1)))"

definition ReadBundleEnd :: "FileHandler \<Rightarrow> string \<Rightarrow> failure + FileHandler" where
  "ReadBundleEnd FH Input =
     (case FH of
        BinaryFH bh \<Rightarrow> (case Binary_ReadBundleEnd bh of Inl e \<Rightarrow> Inl e | Inr bh1 \<Rightarrow> Inr (BinaryFH bh1))
      | TextFH th \<Rightarrow> (case Text_ReadBundleEnd th Input of Inl e \<Rightarrow> Inl e | Inr th1 \<Rightarrow> Inr (TextFH th1))
      | ObjectFH oh \<Rightarrow> Inr (ObjectFH oh))"

definition ReadBundle ::
  "collab \<Rightarrow> FileHandler \<Rightarrow> raw_fd_ostream \<Rightarrow> string \<Rightarrow> failure + (FileHandler \<times> raw_fd_ostream)" where
  "ReadBundle E FH OS Input =
     (case FH of
        BinaryFH bh \<Rightarrow> (case Binary_ReadBundle E bh OS Input of
                         Inl e \<Rightarrow> Inl e | Inr (bh1, OS') \<Rightarrow> Inr (BinaryFH bh1, OS'))
      | TextFH th \<Rightarrow> (case Text_ReadBundle th OS Input of
                       Inl e \<Rightarrow> Inl e | Inr (th1, OS') \<Rightarrow> Inr (TextFH th1, OS'))
      | ObjectFH oh \<Rightarrow> (case Object_ReadBundle oh OS Input of
                         Inl e \<Rightarrow> Inl e | Inr (oh1, OS') \<Rightarrow> Inr (ObjectFH oh1, OS')))"

definition WriteHeader ::
  "OffloadBundlerConfig \<Rightarrow> FileHandler \<Rightarrow> raw_fd_ostream \<Rightarrow> string list \<Rightarrow>
   failure + (FileHandler \<times> raw_fd_ostream)" where
  "WriteHeader BC FH OS Inputs =
     (case FH of
        BinaryFH bh \<Rightarrow> (case Binary_WriteHeader BC bh OS Inputs of
                         Inl e \<Rightarrow> Inl e | Inr (bh1, OS') \<Rightarrow> Inr (BinaryFH bh1, OS'))
      | TextFH th \<Rightarrow> Inr (TextFH th, OS)
      | ObjectFH oh \<Rightarrow> (case Object_WriteHeader BC oh Inputs of
                         Inl e \<Rightarrow> Inl e | Inr oh1 \<Rightarrow> Inr (ObjectFH oh1, OS)))"

definition WriteBundleStart ::
  "FileHandler \<Rightarrow> raw_fd_ostream \<Rightarrow> string \<Rightarrow> failure + (FileHandler \<times> raw_fd_ostream)" where
  "WriteBundleStart FH OS TargetTriple =
     (case FH of
        BinaryFH bh \<Rightarrow> Inr (BinaryFH (Binary_WriteBundleStart bh TargetTriple), OS)
      | TextFH th \<Rightarrow> Inr (TextFH th, Text_WriteBundleStart th OS TargetTriple)
      | ObjectFH oh \<Rightarrow>
          Inr (ObjectFH (oh\<lparr>NumberOfProcessedInputs := NumberOfProcessedInputs oh + 1\<rparr>), OS))"

definition WriteBundleEnd ::
  "collab \<Rightarrow> OffloadBundlerConfig \<Rightarrow> FileHandler \<Rightarrow> raw_fd_ostream \<Rightarrow> string \<Rightarrow>
   failure + (FileHandler \<times> raw_fd_ostream)" where
  "WriteBundleEnd E BC FH OS TargetTriple =
     (case FH of
        BinaryFH bh \<Rightarrow> Inr (BinaryFH bh, OS)
      | TextFH th \<Rightarrow> Inr (TextFH th, Text_WriteBundleEnd th OS TargetTriple)
      | ObjectFH oh \<Rightarrow> (case Object_WriteBundleEnd E BC oh OS of
                         Inl e \<Rightarrow> Inl e | Inr (oh1, OS') \<Rightarrow> Inr (ObjectFH oh1, OS')))"

definition WriteBundle ::
  "FileHandler \<Rightarrow> raw_fd_ostream \<Rightarrow> string \<Rightarrow> failure + (FileHandler \<times> raw_fd_ostream)" where
  "WriteBundle FH OS Input =
     (case FH of
        BinaryFH bh \<Rightarrow> (case Binary_WriteBundle bh OS Input of (bh1, OS') \<Rightarrow> Inr (BinaryFH bh1, OS'))
      | TextFH th \<Rightarrow> Inr (TextFH th, Text_WriteBundle OS Input)
      | ObjectFH oh \<Rightarrow> Inr (ObjectFH oh, OS))"

definition listBundleIDsCallback :: "FileHandler \<Rightarrow> string \<Rightarrow> failure + FileHandler" where
  "listBundleIDsCallback FH Input =
     (case FH of
        TextFH th \<Rightarrow> (case Text_listBundleIDsCallback th Input of
                       Inl e \<Rightarrow> Inl e | Inr th1 \<Rightarrow> Inr (TextFH th1))
      | _ \<Rightarrow> Inr FH)"


section \<open>Choosing a handler\<close>

definition CreateObjectFileHandler :: "collab \<Rightarrow> string \<Rightarrow> FileHandler" where
  "CreateObjectFileHandler E FirstInput =
     (case createBinary E FirstInput of
        None \<Rightarrow> BinaryFH BinaryFileHandler_new
      | Some sections \<Rightarrow> ObjectFH (ObjectFileHandler_new sections))"

definition CreateFileHandler ::
  "collab \<Rightarrow> OffloadBundlerConfig \<Rightarrow> string \<Rightarrow> failure + FileHandler" where
  "CreateFileHandler E BC FirstInput =
     (if FilesType BC = ''i'' then Inr (TextFH (TextFileHandler_new ''//''))
      else if FilesType BC = ''ii'' then Inr (TextFH (TextFileHandler_new ''//''))
      else if FilesType BC = ''cui'' then Inr (TextFH (TextFileHandler_new ''//''))
      else if FilesType BC = ''hipi'' then Inr (TextFH (TextFileHandler_new ''//''))
      else if FilesType BC = ''d'' then Inr (TextFH (TextFileHandler_new ''#''))
      else if FilesType BC = ''ll'' then Inr (TextFH (TextFileHandler_new '';''))
      else if ENABLE_CLASSIC_FLANG E \<and> FilesType BC = ''f95''
      then Inr (TextFH (TextFileHandler_new ''!''))
      else if FilesType BC = ''bc'' then Inr (BinaryFH BinaryFileHandler_new)
      else if FilesType BC = ''s'' then Inr (TextFH (TextFileHandler_new ''#''))
      else if FilesType BC = ''o'' then Inr (CreateObjectFileHandler E FirstInput)
      else if FilesType BC = ''a'' then Inr (CreateObjectFileHandler E FirstInput)
      else if FilesType BC = ''gch'' then Inr (BinaryFH BinaryFileHandler_new)
      else if FilesType BC = ''ast'' then Inr (BinaryFH BinaryFileHandler_new)
      else Inl (StringError ([CHR 0x27] @ FilesType BC @ [CHR 0x27] @ '': invalid file type specified'')))"

section \<open>Files\<close>

text \<open>
  Modelled from the spec: the core owns file I/O.  The file system maps a path to the
  bytes of the file.  \<open>MemoryBuffer::getFileOrSTDIN\<close> fails on a path that is not there;
  a buffer is the bytes the file had when it was opened.
\<close>

type_synonym filesystem = "string \<rightharpoonup> string"

definition getFileOrSTDIN :: "filesystem \<Rightarrow> string \<Rightarrow> failure + string" where
  "getFileOrSTDIN fs Name = (case fs Name of None \<Rightarrow> Inl (FileError Name) | Some b \<Rightarrow> Inr b)"

section \<open>Listing\<close>

text \<open>
  \<open>forEachBundle\<close> is the \<open>while (true)\<close> loop of the source.  Its state is the handler
  together with whatever the callback \<open>Func\<close> (here \<open>Fn\<close>) changes (for \<open>listBundleIDs\<close>: the text written to
  \<open>llvm::outs()\<close>).  A run that never leaves the loop has the value \<open>None\<close>.
\<close>

partial_function (option) forEachBundle ::
  "collab \<Rightarrow> string \<Rightarrow> (string \<Rightarrow> FileHandler \<times> 'a \<Rightarrow> failure + FileHandler \<times> 'a) \<Rightarrow>
   FileHandler \<times> 'a \<Rightarrow> (failure + FileHandler \<times> 'a) option" where
  "forEachBundle E Input Fn st =
     (case ReadBundleStart E (fst st) Input of
        Inl e \<Rightarrow> Some (Inl e)
      | Inr (None, FH1) \<Rightarrow> Some (Inr (FH1, snd st))
      | Inr (Some CurTriple, FH1) \<Rightarrow>
          if CurTriple = [] then Some (Inl (AssertionFailed ''!CurTriple.empty()''))
          else (case Fn CurTriple (FH1, snd st) of
                  Inl e \<Rightarrow> Some (Inl e)
                | Inr st1 \<Rightarrow> forEachBundle E Input Fn st1))"

declare forEachBundle.simps [code]

text \<open>The function that \<open>listBundleIDs\<close> hands to \<open>forEachBundle\<close>: print the bundle
  ID and a newline, then run the callback of the handler.\<close>

definition listBundleIDs_Func ::
  "string \<Rightarrow> string \<Rightarrow> FileHandler \<times> string \<Rightarrow> failure + FileHandler \<times> string" where
  "listBundleIDs_Func Input BundleID st =
     (case listBundleIDsCallback (fst st) Input of
        Inl e \<Rightarrow> Inl e
      | Inr FH3 \<Rightarrow> Inr (FH3, snd st @ BundleID @ [CHR 0x0A]))"

definition listBundleIDs ::
  "collab \<Rightarrow> FileHandler \<Rightarrow> string \<Rightarrow> string \<Rightarrow> (failure + FileHandler \<times> string) option" where
  "listBundleIDs E FH Input outs =
     (case ReadHeader FH Input of
        Inl e \<Rightarrow> Some (Inl e)
      | Inr FH1 \<Rightarrow> forEachBundle E Input (listBundleIDs_Func Input) (FH1, outs))"

text \<open>\<open>ListBundleIDsInFile\<close>: the text printed to \<open>llvm::outs()\<close>.\<close>

definition ListBundleIDsInFile ::
  "collab \<Rightarrow> OffloadBundlerConfig \<Rightarrow> filesystem \<Rightarrow> string \<Rightarrow> (failure + string) option" where
  "ListBundleIDsInFile E BC fs InputFileName =
     (case getFileOrSTDIN fs InputFileName of
        Inl e \<Rightarrow> Some (Inl e)
      | Inr Input \<Rightarrow>
          (case CreateFileHandler E BC Input of
             Inl e \<Rightarrow> Some (Inl e)
           | Inr FH \<Rightarrow>
               (case listBundleIDs E FH Input [] of
                  None \<Rightarrow> None
                | Some (Inl e) \<Rightarrow> Some (Inl e)
                | Some (Inr (FH1, outs)) \<Rightarrow> Some (Inr outs))))"

section \<open>Bundling\<close>

fun open_inputs :: "filesystem \<Rightarrow> string list \<Rightarrow> failure + string list" where
  "open_inputs fs [] = Inr []"
| "open_inputs fs (I # Is) =
     (case getFileOrSTDIN fs I of
        Inl e \<Rightarrow> Inl e
      | Inr b \<Rightarrow> (case open_inputs fs Is of Inl e \<Rightarrow> Inl e | Inr bs \<Rightarrow> Inr (b # bs)))"

text \<open>The loop of \<open>BundleFiles\<close> over the target names, \<open>Input\<close> running over the
  input buffers beside it.\<close>

fun BundleFiles_loop ::
  "collab \<Rightarrow> OffloadBundlerConfig \<Rightarrow> string list \<Rightarrow> string list \<Rightarrow> FileHandler \<Rightarrow>
   raw_fd_ostream \<Rightarrow> failure + (FileHandler \<times> raw_fd_ostream)" where
  "BundleFiles_loop E BC [] Inputs FH OS = Inr (FH, OS)"
| "BundleFiles_loop E BC (Tr # Trs) [] FH OS =
     Inl (UndefinedBehaviour ''Input past the end of InputBuffers'')"
| "BundleFiles_loop E BC (Tr # Trs) (Input # Inputs) FH OS =
     (case WriteBundleStart FH OS Tr of
        Inl e \<Rightarrow> Inl e
      | Inr (FH1, OS1) \<Rightarrow>
          (case WriteBundle FH1 OS1 Input of
             Inl e \<Rightarrow> Inl e
           | Inr (FH2, OS2) \<Rightarrow>
               (case WriteBundleEnd E BC FH2 OS2 Tr of
                  Inl e \<Rightarrow> Inl e
                | Inr (FH3, OS3) \<Rightarrow> BundleFiles_loop E BC Trs Inputs FH3 OS3)))"

text \<open>\<open>BundleFiles\<close>: the output file is created (and emptied) before the inputs are
  opened; the result is the file system with the bundled output.\<close>

definition BundleFiles ::
  "collab \<Rightarrow> OffloadBundlerConfig \<Rightarrow> filesystem \<Rightarrow> failure + filesystem" where
  "BundleFiles E BC fs =
     (case OutputFileNames BC of
        [] \<Rightarrow> Inl (UndefinedBehaviour ''OutputFileNames.front() of an empty list'')
      | out # _ \<Rightarrow>
          if \<not> can_open_for_write E out then Inl (FileError out)
          else let fs1 = fs(out \<mapsto> []) in
            case open_inputs fs1 (InputFileNames BC) of
              Inl e \<Rightarrow> Inl e
            | Inr InputBuffers \<Rightarrow>
                if \<not> (HostInputIndex BC \<noteq> no_host_index \<or> AllowNoHost BC)
                then Inl (AssertionFailed ''Host input index undefined??'')
                else let idx = (if AllowNoHost BC then 0 else HostInputIndex BC) in
                  if \<not> idx < length InputBuffers
                  then Inl (UndefinedBehaviour ''InputBuffers index outside the array'')
                  else case CreateFileHandler E BC (InputBuffers ! idx) of
                         Inl e \<Rightarrow> Inl e
                       | Inr FH \<Rightarrow>
                           (case WriteHeader BC FH ostream_new InputBuffers of
                              Inl e \<Rightarrow> Inl e
                            | Inr (FH1, OS1) \<Rightarrow>
                                (case BundleFiles_loop E BC (TargetNames BC) InputBuffers FH1 OS1 of
                                   Inl e \<Rightarrow> Inl e
                                 | Inr (FH2, OS2) \<Rightarrow> Inr (fs1(out \<mapsto> contents OS2)))))"

section \<open>Unbundling\<close>

text \<open>The work list \<open>StringMap<StringRef> Worklist\<close>, built from the target names and the
  output names beside them.\<close>

fun build_Worklist ::
  "string list \<Rightarrow> string list \<Rightarrow> string StringMap \<Rightarrow> failure + string StringMap" where
  "build_Worklist [] Outputs W = Inr W"
| "build_Worklist (Tr # Trs) [] W = Inl (UndefinedBehaviour ''Output past the end of OutputFileNames'')"
| "build_Worklist (Tr # Trs) (Output # Outputs) W =
     build_Worklist Trs Outputs (StringMap_assign W Tr Output)"

text \<open>
  The \<open>while (!Worklist.empty())\<close> loop.  During the loop the work list is the list of
  its entries in iteration order; erasing an entry leaves the order of the others as it
  is.  The state is the handler, the work list, the file system and \<open>FoundHostBundle\<close>.
  An error is returned together with the file system at that moment; opening an output
  creates the file before the bundle is read into it.
\<close>

partial_function (option) UnbundleFiles_loop ::
  "collab \<Rightarrow> OffloadBundlerConfig \<Rightarrow> string \<Rightarrow>
   FileHandler \<times> (string \<times> string) list \<times> filesystem \<times> bool \<Rightarrow>
   (failure \<times> filesystem + FileHandler \<times> (string \<times> string) list \<times> filesystem \<times> bool) option" where
  "UnbundleFiles_loop E BC Input st =
     (case st of (FH, Worklist, fs, FoundHostBundle) \<Rightarrow>
        if Worklist = [] then Some (Inr st)
        else case ReadBundleStart E FH Input of
          Inl e \<Rightarrow> Some (Inl (e, fs))
        | Inr (None, FH1) \<Rightarrow> Some (Inr (FH1, Worklist, fs, FoundHostBundle))
        | Inr (Some CurTriple, FH1) \<Rightarrow>
            if CurTriple = [] then Some (Inl (AssertionFailed ''!CurTriple.empty()'', fs))
            else case find (\<lambda>Output. isCodeObjectCompatible E BC
                                       (OffloadTargetInfo_of E CurTriple)
                                       (OffloadTargetInfo_of E (fst Output))) Worklist of
              None \<Rightarrow> UnbundleFiles_loop E BC Input (FH1, Worklist, fs, FoundHostBundle)
            | Some Output \<Rightarrow>
                if \<not> can_open_for_write E (snd Output) then Some (Inl (FileError (snd Output), fs))
                else case ReadBundle E FH1 ostream_new Input of
                  Inl e \<Rightarrow> Some (Inl (e, fs(snd Output \<mapsto> [])))
                | Inr (FH2, OutputFile) \<Rightarrow>
                    (case ReadBundleEnd FH2 Input of
                       Inl e \<Rightarrow> Some (Inl (e, fs(snd Output \<mapsto> contents OutputFile)))
                     | Inr FH3 \<Rightarrow>
                         UnbundleFiles_loop E BC Input
                           (FH3, remove1 Output Worklist,
                            fs(snd Output \<mapsto> contents OutputFile),
                            FoundHostBundle \<or> hasHostKind (OffloadTargetInfo_of E CurTriple))))"

declare UnbundleFiles_loop.simps [code]

text \<open>The message of the error for targets left in the work list.\<close>

definition missing_bundles_message :: "string list \<Rightarrow> string" where
  "missing_bundles_message Sorted =
     (let Last = length Sorted - 1
      in ''Can'' @ [CHR 0x27] @ ''t find bundles for'' @
         concat (map (\<lambda>(I, En). (if I \<noteq> 0 \<and> Last > 1 then '','' else []) @ '' '' @
                               (if I = Last \<and> I \<noteq> 0 then ''and '' else []) @ En)
                     (enumerate 0 Sorted)))"

text \<open>The two loops that create the files of the entries left in the work list: the
  first copies the input to the entries of host kind, the second leaves every file
  empty.\<close>

fun create_host_or_empty ::
  "collab \<Rightarrow> string \<Rightarrow> (string \<times> string) list \<Rightarrow> filesystem \<Rightarrow>
   failure \<times> filesystem + filesystem" where
  "create_host_or_empty E Input [] fs = Inr fs"
| "create_host_or_empty E Input (En # Ens) fs =
     (if \<not> can_open_for_write E (snd En) then Inl (FileError (snd En), fs)
      else create_host_or_empty E Input Ens
             (fs(snd En \<mapsto> (if hasHostKind (OffloadTargetInfo_of E (fst En)) then Input else []))))"

fun create_empty ::
  "collab \<Rightarrow> (string \<times> string) list \<Rightarrow> filesystem \<Rightarrow> failure \<times> filesystem + filesystem" where
  "create_empty E [] fs = Inr fs"
| "create_empty E (En # Ens) fs =
     (if \<not> can_open_for_write E (snd En) then Inl (FileError (snd En), fs)
      else create_empty E Ens (fs(snd En \<mapsto> [])))"

text \<open>\<open>UnbundleFiles\<close>.  A run that returns an error has the value \<open>Inl\<close> of the error
  and of the file system at that moment (the files written before the error stay as they
  are); a run that succeeds has the value \<open>Inr\<close> of the file system at its end.\<close>

definition UnbundleFiles ::
  "collab \<Rightarrow> OffloadBundlerConfig \<Rightarrow> filesystem \<Rightarrow> (failure \<times> filesystem + filesystem) option" where
  "UnbundleFiles E BC fs =
     (case InputFileNames BC of
        [] \<Rightarrow> Some (Inl (UndefinedBehaviour ''InputFileNames.front() of an empty list'', fs))
      | InputFileName # _ \<Rightarrow>
        (case getFileOrSTDIN fs InputFileName of
           Inl e \<Rightarrow> Some (Inl (e, fs))
         | Inr Input \<Rightarrow>
           (case CreateFileHandler E BC Input of
              Inl e \<Rightarrow> Some (Inl (e, fs))
            | Inr FH \<Rightarrow>
              (case ReadHeader FH Input of
                 Inl e \<Rightarrow> Some (Inl (e, fs))
               | Inr FH1 \<Rightarrow>
                 (case build_Worklist (TargetNames BC) (OutputFileNames BC) [] of
                    Inl e \<Rightarrow> Some (Inl (e, fs))
                  | Inr W \<Rightarrow>
                    (case UnbundleFiles_loop E BC Input (FH1, StringMap_iteration E W, fs, False) of
                       None \<Rightarrow> None
                     | Some (Inl e) \<Rightarrow> Some (Inl e)
                     | Some (Inr (FH2, Worklist, fs1, FoundHostBundle)) \<Rightarrow>
                         if \<not> AllowMissingBundles BC \<and> Worklist \<noteq> []
                         then Some (Inl (StringError
                                      (missing_bundles_message (sort (map fst Worklist))), fs1))
                         else if length Worklist = length (TargetNames BC)
                         then Some (create_host_or_empty E Input Worklist fs1)
                         else if \<not> (FoundHostBundle \<or> HostInputIndex BC = no_host_index \<or>
                                     AllowMissingBundles BC)
                         then Some (Inl (StringError
                                      (''Can'' @ [CHR 0x27] @ ''t find bundle for the host target''), fs1))
                         else Some (create_empty E Worklist fs1)))))))"

section \<open>Splitting an archive: writing the archives\<close>




text \<open>The map \<open>TargetOutputFileNameMap\<close> built at the start of \<open>UnbundleArchive\<close>.\<close>

fun build_TargetOutputFileNameMap ::
  "string list \<Rightarrow> string list \<Rightarrow> string StringMap \<Rightarrow> failure + string StringMap" where
  "build_TargetOutputFileNameMap [] Outputs M = Inr M"
| "build_TargetOutputFileNameMap (Tr # Trs) [] M =
     Inl (UndefinedBehaviour ''Output past the end of OutputFileNames'')"
| "build_TargetOutputFileNameMap (Tr # Trs) (Output # Outputs) M =
     build_TargetOutputFileNameMap Trs Outputs (StringMap_assign M Tr Output)"



section \<open>Collaborators for examples\<close>

text \<open>
  Modelled from the spec: one concrete choice of the collaborators, used to run the
  model on examples.  Two GPU names are known, triples and target IDs are compatible
  when they are equal, the string map iterates in insertion order, no buffer is an
  object file, and every file can be written.
\<close>

definition example_collab :: collab where
  "example_collab =
     \<lparr>StringToCudaArch_known = (\<lambda>s. s = ''gfx906'' \<or> s = ''sm_70''),
      Triple_isCompatibleWith = (\<lambda>a b. a = b),
      isCompatibleTargetID = (\<lambda>p r. p = r),
      bucket_order = (\<lambda>ks. ks),
      createBinary = (\<lambda>b. None),
      createTemporaryFile = (\<lambda>c. Inr ''clang-offload-bundler.tmp''),
      ExecuteAndWait = (\<lambda>p a. (0, [])),
      can_open_for_write = (\<lambda>p. True),
      ENABLE_CLASSIC_FLANG = True\<rparr>"

definition example_config :: OffloadBundlerConfig where
  "example_config =
     \<lparr>AllowNoHost = False, AllowMissingBundles = False, PrintExternalCommands = False,
      HipOpenmpCompatible = False, BundleAlignment = 1, HostInputIndex = 0,
      FilesType = ''ll'', ObjcopyPath = [], TargetNames = [], InputFileNames = [],
      OutputFileNames = []\<rparr>"


section \<open>Layouts and example inputs used in the statements\<close>

text \<open>One entry of a text container: start marker, target, payload, end marker.\<close>

definition text_bundle_entry :: "TextFileHandler \<Rightarrow> string \<times> string \<Rightarrow> string" where
  "text_bundle_entry H TP =
     BundleStartString H @ fst TP @ [CHR 0x0A] @ snd TP @ BundleEndString H @ fst TP @ [CHR 0x0A]"

text \<open>
  The handler \<open>FH\<close> delivers, on the buffer \<open>Input\<close>, the bundles \<open>bs\<close> (identifier and
  payload) one after the other and then none: each \<open>ReadBundleStart\<close> returns the next
  identifier, \<open>ReadBundle\<close> writes its payload, and \<open>ReadBundleEnd\<close> as well as the
  listing callback lead to the state from which the rest is delivered.
\<close>

fun reads_bundles :: "collab \<Rightarrow> string \<Rightarrow> FileHandler \<Rightarrow> (string \<times> string) list \<Rightarrow> bool" where
  "reads_bundles E Input FH [] = (\<exists>FH1. ReadBundleStart E FH Input = Inr (None, FH1))"
| "reads_bundles E Input FH (b # bs) =
     (\<exists>FH1 FH2 FH3 OS.
        ReadBundleStart E FH Input = Inr (Some (fst b), FH1) \<and>
        ReadBundle E FH1 ostream_new Input = Inr (FH2, OS) \<and> contents OS = snd b \<and>
        ReadBundleEnd FH2 Input = Inr FH3 \<and>
        listBundleIDsCallback FH1 Input = Inr FH3 \<and>
        reads_bundles E Input FH3 bs)"





text \<open>The records \<open>rs\<close> lie one behind the other from the position \<open>b\<close> on: each offset is
  at least the end of the record before it, the first one at least \<open>b\<close>.  And the end of
  the last record.\<close>

fun chained :: "nat \<Rightarrow> (string \<times> BinaryBundleInfo) list \<Rightarrow> bool" where
  "chained b [] = True"
| "chained b (r # rs) = (b \<le> Offset (snd r) \<and> chained (Offset (snd r) + Size (snd r)) rs)"

fun records_end :: "nat \<Rightarrow> (string \<times> BinaryBundleInfo) list \<Rightarrow> nat" where
  "records_end b [] = b"
| "records_end b (r # rs) = records_end (Offset (snd r) + Size (snd r)) rs"

text \<open>A stream whose next write appends to its file.\<close>

definition at_end :: "raw_fd_ostream \<Rightarrow> bool" where
  "at_end OS = (position OS = length (contents OS))"

text \<open>The bytes with which, in the words of the spec, a start marker line and an end
  marker line begin for the comment prefix \<open>;\<close>.\<close>

definition spec_start_marker :: string where
  "spec_start_marker = '';  __CLANG_OFFLOAD_BUNDLE__ __START__ ''"

definition spec_end_marker :: string where
  "spec_end_marker = '';  __CLANG_OFFLOAD_BUNDLE__ __END__ ''"

text \<open>Two \<open>.ll\<close> inputs \<open>x\<close>-newline and \<open>y\<close>-newline for a host and a device
  target.\<close>

definition ll_example_config :: OffloadBundlerConfig where
  "ll_example_config =
     example_config\<lparr>TargetNames := [''host-x86_64-unknown-linux-gnu'', ''openmp-amdgcn-amd-amdhsa--gfx906''],
                    InputFileNames := [''a.ll'', ''b.ll''], OutputFileNames := [''out.ll'']\<rparr>"

definition ll_example_files :: filesystem where
  "ll_example_files = [''a.ll'' \<mapsto> ''x'' @ [CHR 0x0A], ''b.ll'' \<mapsto> ''y'' @ [CHR 0x0A]]"

definition ll_example_output :: string where
  "ll_example_output =
     [CHR 0x0A] @ ''; __CLANG_OFFLOAD_BUNDLE____START__ host-x86_64-unknown-linux-gnu'' @ [CHR 0x0A] @
     ''x'' @ [CHR 0x0A] @
     [CHR 0x0A] @ ''; __CLANG_OFFLOAD_BUNDLE____END__ host-x86_64-unknown-linux-gnu'' @ [CHR 0x0A] @
     [CHR 0x0A] @ ''; __CLANG_OFFLOAD_BUNDLE____START__ openmp-amdgcn-amd-amdhsa--gfx906'' @ [CHR 0x0A] @
     ''y'' @ [CHR 0x0A] @
     [CHR 0x0A] @ ''; __CLANG_OFFLOAD_BUNDLE____END__ openmp-amdgcn-amd-amdhsa--gfx906'' @ [CHR 0x0A]"

text \<open>A text container whose only bundle has a start marker and no end marker.\<close>

definition text_no_end_marker_input :: string where
  "text_no_end_marker_input =
     [CHR 0x0A] @ ''; __CLANG_OFFLOAD_BUNDLE____START__ T'' @ [CHR 0x0A] @ ''abc''"

text \<open>A binary header with one record: offset 1, size 0, triple length \<open>2 ^ 64 - 1\<close>.\<close>

definition wrapping_triple_size_input :: string where
  "wrapping_triple_size_input =
     ''__CLANG_OFFLOAD_BUNDLE__'' @
     [CHR 0x01, CHR 0x00, CHR 0x00, CHR 0x00, CHR 0x00, CHR 0x00, CHR 0x00, CHR 0x00] @
     [CHR 0x01, CHR 0x00, CHR 0x00, CHR 0x00, CHR 0x00, CHR 0x00, CHR 0x00, CHR 0x00] @
     [CHR 0x00, CHR 0x00, CHR 0x00, CHR 0x00, CHR 0x00, CHR 0x00, CHR 0x00, CHR 0x00] @
     [CHR 0xFF, CHR 0xFF, CHR 0xFF, CHR 0xFF, CHR 0xFF, CHR 0xFF, CHR 0xFF, CHR 0xFF]"

text \<open>A binary header with one record: offset \<open>2 ^ 64 - 1\<close>, size 2, triple \<open>T\<close>.\<close>

definition wrapping_offset_input :: string where
  "wrapping_offset_input =
     ''__CLANG_OFFLOAD_BUNDLE__'' @
     [CHR 0x01, CHR 0x00, CHR 0x00, CHR 0x00, CHR 0x00, CHR 0x00, CHR 0x00, CHR 0x00] @
     [CHR 0xFF, CHR 0xFF, CHR 0xFF, CHR 0xFF, CHR 0xFF, CHR 0xFF, CHR 0xFF, CHR 0xFF] @
     [CHR 0x02, CHR 0x00, CHR 0x00, CHR 0x00, CHR 0x00, CHR 0x00, CHR 0x00, CHR 0x00] @
     [CHR 0x01, CHR 0x00, CHR 0x00, CHR 0x00, CHR 0x00, CHR 0x00, CHR 0x00, CHR 0x00] @ ''T''"

text \<open>A binary header with two records: the first one valid (offset 1, size 0, triple
  \<open>a\<close>), the second one with offset 0 (triple \<open>b\<close>).\<close>

definition second_record_invalid_input :: string where
  "second_record_invalid_input =
     ''__CLANG_OFFLOAD_BUNDLE__'' @
     [CHR 0x02, CHR 0x00, CHR 0x00, CHR 0x00, CHR 0x00, CHR 0x00, CHR 0x00, CHR 0x00] @
     [CHR 0x01, CHR 0x00, CHR 0x00, CHR 0x00, CHR 0x00, CHR 0x00, CHR 0x00, CHR 0x00] @
     [CHR 0x00, CHR 0x00, CHR 0x00, CHR 0x00, CHR 0x00, CHR 0x00, CHR 0x00, CHR 0x00] @
     [CHR 0x01, CHR 0x00, CHR 0x00, CHR 0x00, CHR 0x00, CHR 0x00, CHR 0x00, CHR 0x00] @ ''a'' @
     [CHR 0x00, CHR 0x00, CHR 0x00, CHR 0x00, CHR 0x00, CHR 0x00, CHR 0x00, CHR 0x00] @
     [CHR 0x00, CHR 0x00, CHR 0x00, CHR 0x00, CHR 0x00, CHR 0x00, CHR 0x00, CHR 0x00] @
     [CHR 0x01, CHR 0x00, CHR 0x00, CHR 0x00, CHR 0x00, CHR 0x00, CHR 0x00, CHR 0x00] @ ''b''"



text \<open>A plain text file unbundled for a host and a device target.\<close>

definition plain_example_config :: OffloadBundlerConfig where
  "plain_example_config =
     example_config\<lparr>TargetNames := [''host-x86_64-unknown-linux-gnu'', ''hip-amdgcn-amd-amdhsa--gfx906''],
                    InputFileNames := [''plain.ll''], OutputFileNames := [''host.ll'', ''gfx906.ll'']\<rparr>"

definition plain_example_files :: filesystem where
  "plain_example_files = [''plain.ll'' \<mapsto> ''hello'']"




text \<open>
  The handler \<open>FH\<close> finds, on the buffer \<open>Input\<close>, the bundles with the identifiers \<open>ids\<close>
  and then none, when it is advanced by \<open>ReadBundleStart\<close> alone, as the loop of
  \<open>UnbundleFiles\<close> does at a bundle that matches no entry of the work list.
\<close>

fun starts_only :: "collab \<Rightarrow> string \<Rightarrow> FileHandler \<Rightarrow> string list \<Rightarrow> bool" where
  "starts_only E Input FH [] =
     (case ReadBundleStart E FH Input of
        Inl e \<Rightarrow> False
      | Inr (None, FH1) \<Rightarrow> True
      | Inr (Some CurTriple, FH1) \<Rightarrow> False)"
| "starts_only E Input FH (t # ts) =
     (case ReadBundleStart E FH Input of
        Inl e \<Rightarrow> False
      | Inr (None, FH1) \<Rightarrow> False
      | Inr (Some CurTriple, FH1) \<Rightarrow> CurTriple = t \<and> starts_only E Input FH1 ts)"

text \<open>A text container with one bundle, for a target that is not requested.\<close>

definition unmatched_example_input :: string where
  "unmatched_example_input =
     [CHR 0x0A] @ ''; __CLANG_OFFLOAD_BUNDLE____START__ openmp-nvptx64-nvidia-cuda--sm_70'' @ [CHR 0x0A] @
     ''code'' @
     [CHR 0x0A] @ ''; __CLANG_OFFLOAD_BUNDLE____END__ openmp-nvptx64-nvidia-cuda--sm_70'' @ [CHR 0x0A]"

definition unmatched_example_files :: filesystem where
  "unmatched_example_files = [''plain.ll'' \<mapsto> unmatched_example_input]"

text \<open>A text container whose only start marker is followed by an empty identifier.\<close>

definition empty_id_example_input :: string where
  "empty_id_example_input =
     [CHR 0x0A] @ ''; __CLANG_OFFLOAD_BUNDLE____START__ '' @ [CHR 0x0A] @ ''code''"

definition empty_id_example_files :: filesystem where
  "empty_id_example_files = [''plain.ll'' \<mapsto> empty_id_example_input]"

text \<open>The host target requested twice, with two output files.\<close>

definition twice_host_example_config :: OffloadBundlerConfig where
  "twice_host_example_config =
     example_config\<lparr>AllowMissingBundles := True,
                    TargetNames := [''host-x86_64-unknown-linux-gnu'', ''host-x86_64-unknown-linux-gnu''],
                    InputFileNames := [''plain.ll''], OutputFileNames := [''host1.ll'', ''host2.ll'']\<rparr>"

section \<open>Basic facts\<close>

subsection \<open>Streams that append\<close>

lemma ostream_write_at_end:
  "at_end OS \<Longrightarrow> contents (ostream_write OS s) = contents OS @ s \<and> at_end (ostream_write OS s)"
  by (cases "s = []") (simp_all add: ostream_write_def at_end_def)

lemma at_end_new: "at_end ostream_new" "contents ostream_new = []"
  by (simp_all add: at_end_def ostream_new_def)

subsection \<open>Bundling into a text container\<close>

lemma Text_entry_written:
  assumes "at_end OS"
  shows "contents (Text_WriteBundleEnd H (Text_WriteBundle (Text_WriteBundleStart H OS T) P) T)
           = contents OS @ text_bundle_entry H (T, P) \<and>
         at_end (Text_WriteBundleEnd H (Text_WriteBundle (Text_WriteBundleStart H OS T) P) T)"
  using assms
  by (simp add: Text_WriteBundleEnd_def Text_WriteBundle_def Text_WriteBundleStart_def
      text_bundle_entry_def ostream_write_at_end)

lemma Text_BundleFiles_loop:
  "at_end OS \<Longrightarrow> length Ts \<le> length Ps \<Longrightarrow>
   \<exists>OS'. BundleFiles_loop E BC Ts Ps (TextFH H) OS = Inr (TextFH H, OS') \<and> at_end OS' \<and>
         contents OS' = contents OS @ concat (map (text_bundle_entry H) (zip Ts Ps))"
proof (induction Ts arbitrary: Ps OS)
  case Nil
  then show ?case by simp
next
  case (Cons T Ts)
  then obtain P Ps' where Ps: "Ps = P # Ps'" by (cases Ps) auto
  let ?OS1 = "Text_WriteBundleEnd H (Text_WriteBundle (Text_WriteBundleStart H OS T) P) T"
  have w: "contents ?OS1 = contents OS @ text_bundle_entry H (T, P)" "at_end ?OS1"
    using Text_entry_written [OF Cons.prems(1)] by auto
  have len: "length Ts \<le> length Ps'" using Cons.prems(2) Ps by simp
  from Cons.IH [OF w(2) len] obtain OS' where
    "BundleFiles_loop E BC Ts Ps' (TextFH H) ?OS1 = Inr (TextFH H, OS')" "at_end OS'"
    "contents OS' = contents ?OS1 @ concat (map (text_bundle_entry H) (zip Ts Ps'))" by blast
  then show ?case
    by (simp add: Ps WriteBundleStart_def WriteBundle_def WriteBundleEnd_def w)
qed

lemma open_inputs_files:
  "list_all2 (\<lambda>n p. fs n = Some p) names Ps \<Longrightarrow> open_inputs fs names = Inr Ps"
  by (induction names Ps rule: list_all2_induct) (simp_all add: getFileOrSTDIN_def)

lemma BundleFiles_text:
  assumes out: "OutputFileNames BC = out # outs" and opn: "can_open_for_write E out"
    and inp: "open_inputs (fs(out \<mapsto> [])) (InputFileNames BC) = Inr Ps"
    and len: "length (TargetNames BC) \<le> length Ps"
    and host: "HostInputIndex BC \<noteq> no_host_index \<or> AllowNoHost BC"
    and idx: "(if AllowNoHost BC then 0 else HostInputIndex BC) < length Ps"
    and fh: "CreateFileHandler E BC (Ps ! (if AllowNoHost BC then 0 else HostInputIndex BC)) = Inr (TextFH H)"
  shows "BundleFiles E BC fs =
           Inr (fs(out \<mapsto> concat (map (text_bundle_entry H) (zip (TargetNames BC) Ps))))"
proof -
  from Text_BundleFiles_loop [OF at_end_new(1) len, of E BC H] obtain OS' where
    loop: "BundleFiles_loop E BC (TargetNames BC) Ps (TextFH H) ostream_new = Inr (TextFH H, OS')"
    and c: "contents OS' = concat (map (text_bundle_entry H) (zip (TargetNames BC) Ps))"
    by (auto simp: at_end_new)
  have wh: "WriteHeader BC (TextFH H) ostream_new Ps = Inr (TextFH H, ostream_new)"
    by (simp add: WriteHeader_def)
  show ?thesis
    unfolding BundleFiles_def
    using host idx by (simp add: out opn inp fh wh loop c Let_def)
qed

lemma CreateFileHandler_ll:
  "FilesType BC = ''ll'' \<Longrightarrow> CreateFileHandler E BC b = Inr (TextFH (TextFileHandler_new '';''))"
  by (simp add: CreateFileHandler_def)

text \<open>
  Claim C6, amended.  Bundling two \<open>.ll\<close> inputs \<open>x\<close>-newline and \<open>y\<close>-newline for the
  targets \<open>T1\<close> and \<open>T2\<close> with the text container writes exactly: the start marker of
  \<open>T1\<close>, the first payload, the end marker of \<open>T1\<close>, the start marker of \<open>T2\<close>, the
  second payload and the end marker of \<open>T2\<close>.  A marker is a newline, then the bytes
  \<open>; __CLANG_OFFLOAD_BUNDLE____START__ \<close> or \<open>; __CLANG_OFFLOAD_BUNDLE____END__ \<close> (one
  space after the comment prefix, none between the magic string and the keyword), then
  the target name and a newline.
\<close>

theorem text_container_two_ll_inputs:
  assumes ft: "FilesType BC = ''ll''"
    and tn: "TargetNames BC = [T1, T2]"
    and inp: "InputFileNames BC = [i1, i2]"
    and out: "OutputFileNames BC = out # outs"
    and opn: "can_open_for_write E out"
    and f1: "fs i1 = Some (''x'' @ [CHR 0x0A])" and f2: "fs i2 = Some (''y'' @ [CHR 0x0A])"
    and ne: "out \<noteq> i1" "out \<noteq> i2"
    and host: "AllowNoHost BC \<or> HostInputIndex BC < 2"
  shows "BundleFiles E BC fs =
     Inr (fs(out \<mapsto>
        [CHR 0x0A] @ ''; __CLANG_OFFLOAD_BUNDLE____START__ '' @ T1 @ [CHR 0x0A] @
        ''x'' @ [CHR 0x0A] @
        [CHR 0x0A] @ ''; __CLANG_OFFLOAD_BUNDLE____END__ '' @ T1 @ [CHR 0x0A] @
        [CHR 0x0A] @ ''; __CLANG_OFFLOAD_BUNDLE____START__ '' @ T2 @ [CHR 0x0A] @
        ''y'' @ [CHR 0x0A] @
        [CHR 0x0A] @ ''; __CLANG_OFFLOAD_BUNDLE____END__ '' @ T2 @ [CHR 0x0A]))"
proof -
  let ?Ps = "[''x'' @ [CHR 0x0A], ''y'' @ [CHR 0x0A]]"
  have oi: "open_inputs (fs(out \<mapsto> [])) (InputFileNames BC) = Inr ?Ps"
    using f1 f2 ne by (intro open_inputs_files) (simp add: inp)
  have nh: "HostInputIndex BC \<noteq> no_host_index \<or> AllowNoHost BC"
    using host by (auto simp: no_host_index_def)
  have idx: "(if AllowNoHost BC then 0 else HostInputIndex BC) < length ?Ps"
    using host by auto
  have "BundleFiles E BC fs =
      Inr (fs(out \<mapsto> concat (map (text_bundle_entry (TextFileHandler_new '';'')) (zip (TargetNames BC) ?Ps))))"
    by (rule BundleFiles_text [OF out opn oi _ nh idx CreateFileHandler_ll [OF ft]]) (simp add: tn)
  then show ?thesis
    by (simp add: tn text_bundle_entry_def TextFileHandler_new_def OFFLOAD_BUNDLER_MAGIC_STR_def)
qed

text \<open>The theorem at the host and device targets of the example.\<close>

theorem text_container_two_ll_inputs_witness:
  "BundleFiles example_collab ll_example_config ll_example_files =
     Inr (ll_example_files(''out.ll'' \<mapsto> ll_example_output))"
proof -
  have "BundleFiles example_collab ll_example_config ll_example_files =
     Inr (ll_example_files(''out.ll'' \<mapsto>
        [CHR 0x0A] @ ''; __CLANG_OFFLOAD_BUNDLE____START__ '' @ ''host-x86_64-unknown-linux-gnu'' @ [CHR 0x0A] @
        ''x'' @ [CHR 0x0A] @
        [CHR 0x0A] @ ''; __CLANG_OFFLOAD_BUNDLE____END__ '' @ ''host-x86_64-unknown-linux-gnu'' @ [CHR 0x0A] @
        [CHR 0x0A] @ ''; __CLANG_OFFLOAD_BUNDLE____START__ '' @ ''openmp-amdgcn-amd-amdhsa--gfx906'' @ [CHR 0x0A] @
        ''y'' @ [CHR 0x0A] @
        [CHR 0x0A] @ ''; __CLANG_OFFLOAD_BUNDLE____END__ '' @ ''openmp-amdgcn-amd-amdhsa--gfx906'' @ [CHR 0x0A]))"
    by (rule text_container_two_ll_inputs [where ?i1.0 = "''a.ll''" and ?i2.0 = "''b.ll''" and outs = "[]"])
       (simp_all add: ll_example_config_def example_config_def ll_example_files_def example_collab_def)
  then show ?thesis by (simp add: ll_example_output_def)
qed

text \<open>
  Claim C6 as stated fails: in the file bundled from the example no line begins with the
  bytes \<open>;  __CLANG_OFFLOAD_BUNDLE__ __START__ \<close> or \<open>;  __CLANG_OFFLOAD_BUNDLE__ __END__ \<close>
  of the claim; these bytes do not occur in the file at all.
\<close>

theorem text_marker_counterexample:
  "BundleFiles example_collab ll_example_config ll_example_files =
     Inr (ll_example_files(''out.ll'' \<mapsto> ll_example_output)) \<and>
   find_first spec_start_marker ll_example_output = None \<and>
   find_first spec_end_marker ll_example_output = None"
proof -
  let ?Ps = "[''x'' @ [CHR 0x0A], ''y'' @ [CHR 0x0A]]"
  have "BundleFiles example_collab ll_example_config ll_example_files =
      Inr (ll_example_files(''out.ll'' \<mapsto> concat (map (text_bundle_entry (TextFileHandler_new '';''))
         (zip (TargetNames ll_example_config) ?Ps))))"
    by (rule BundleFiles_text [where outs = "[]"])
       (simp_all add: ll_example_config_def example_config_def ll_example_files_def
          example_collab_def getFileOrSTDIN_def CreateFileHandler_def no_host_index_def)
  then have 1: "BundleFiles example_collab ll_example_config ll_example_files =
     Inr (ll_example_files(''out.ll'' \<mapsto> ll_example_output))"
    by (simp add: ll_example_output_def ll_example_config_def example_config_def
        text_bundle_entry_def TextFileHandler_new_def OFFLOAD_BUNDLER_MAGIC_STR_def)
  have 2: "find_first spec_start_marker ll_example_output = None"
    by (simp add: spec_start_marker_def ll_example_output_def)
  have 3: "find_first spec_end_marker ll_example_output = None"
    by (simp add: spec_end_marker_def ll_example_output_def)
  from 1 2 3 show ?thesis by simp
qed


subsection \<open>Kind compatibility\<close>




subsection \<open>Reading at failing inputs\<close>

text \<open>
  Claim C7 at a failing input: a text container whose last bundle has a start marker and
  no end marker.  \<open>ReadBundleStart\<close> returns the target \<open>T\<close>; \<open>ReadBundle\<close> then takes
  \<open>npos\<close> for the end of the bundle and reads \<open>npos - BundleStart\<close> bytes, far past the
  end of the buffer.
\<close>

theorem text_missing_end_marker_reads_outside:
  "Text_ReadBundleStart (TextFileHandler_new '';'') text_no_end_marker_input =
     (Some ''T'', (TextFileHandler_new '';'')\<lparr>ReadChars := 39\<rparr>) \<and>
   Text_ReadBundle ((TextFileHandler_new '';'')\<lparr>ReadChars := 39\<rparr>) ostream_new
       text_no_end_marker_input =
     Inl (UndefinedBehaviour ''bundle outside the buffer'')"
  by (simp add: Text_ReadBundleStart_def Text_ReadBundle_def TextFileHandler_new_def
      text_no_end_marker_input_def OFFLOAD_BUNDLER_MAGIC_STR_def StringRef_find_def npos_def
      add64_def sub64_def Let_def)

text \<open>
  Claim C10 at a failing input: a header whose record gives the triple length
  \<open>2 ^ 64 - 1\<close>.  The sum \<open>ReadChars + TripleSize\<close> wraps around to 55, the bounds check
  passes, and the triple that \<open>ReadHeader\<close> then stores in the map lies outside the
  buffer: an abnormal exit that is not the assertion on a duplicate triple.
\<close>

theorem ReadHeader_wrapping_triple_size:
  "Binary_ReadHeader BinaryFileHandler_new wrapping_triple_size_input =
     Inl (UndefinedBehaviour ''triple outside the buffer'')"
  by (simp add: Binary_ReadHeader_def BinaryFileHandler_new_def wrapping_triple_size_input_def
      OFFLOAD_BUNDLER_MAGIC_STR_def Read8byteIntegerFromBuffer_def add64_def StringMap_end_def
      StringMap_contains_def Let_def Binary_ReadHeader_loop.simps)

text \<open>
  Claim C4 at a failing input: a header whose record has offset \<open>2 ^ 64 - 1\<close> and size 2,
  so that offset plus size is greater than the size of the file.  The sum \<open>Offset + Size\<close>
  wraps around to 1, \<open>ReadHeader\<close> keeps the record, and \<open>ReadBundleStart\<close> reports the
  bundle \<open>T\<close>.
\<close>

theorem ReadHeader_wrapping_offset_keeps_bundle:
  "Binary_ReadHeader BinaryFileHandler_new wrapping_offset_input =
     Inr \<lparr>BundlesInfo = [(''T'', \<lparr>Size = 2, Offset = 2 ^ 64 - 1\<rparr>)], CurBundleInfo = It 1,
          NextBundleInfo = It 0, CurWriteBundleTarget = []\<rparr> \<and>
   Binary_ReadBundleStart example_collab
     \<lparr>BundlesInfo = [(''T'', \<lparr>Size = 2, Offset = 2 ^ 64 - 1\<rparr>)], CurBundleInfo = It 1,
      NextBundleInfo = It 0, CurWriteBundleTarget = []\<rparr> =
     Inr (Some ''T'',
          \<lparr>BundlesInfo = [(''T'', \<lparr>Size = 2, Offset = 2 ^ 64 - 1\<rparr>)], CurBundleInfo = It 0,
           NextBundleInfo = It 1, CurWriteBundleTarget = []\<rparr>)"
  by (simp add: Binary_ReadHeader_def BinaryFileHandler_new_def wrapping_offset_input_def
      OFFLOAD_BUNDLER_MAGIC_STR_def Read8byteIntegerFromBuffer_def add64_def StringMap_end_def
      StringMap_begin_def StringMap_contains_def StringMap_assign_def Let_def
      Binary_ReadHeader_loop.simps Binary_ReadBundleStart_def StringMap_deref_def
      StringMap_iteration_def example_collab_def List.map_filter_def)

text \<open>
  A second input on which \<open>ReadHeader\<close> does not leave a file of zero bundles: the first
  record is valid, the second has offset 0.  The early return leaves the first record in
  the map and \<open>NextBundleInfo\<close> as it was constructed, and \<open>ReadBundleStart\<close> goes through
  that iterator.
\<close>

lemma ReadHeader_second_record_invalid:
  "Binary_ReadHeader BinaryFileHandler_new second_record_invalid_input =
     Inr \<lparr>BundlesInfo = [(''a'', \<lparr>Size = 0, Offset = 1\<rparr>)], CurBundleInfo = ItNull,
          NextBundleInfo = ItNull, CurWriteBundleTarget = []\<rparr> \<and>
   Binary_ReadBundleStart example_collab
     \<lparr>BundlesInfo = [(''a'', \<lparr>Size = 0, Offset = 1\<rparr>)], CurBundleInfo = ItNull,
      NextBundleInfo = ItNull, CurWriteBundleTarget = []\<rparr> =
     Inl (UndefinedBehaviour ''null StringMap iterator'')"
  by (simp add: Binary_ReadHeader_def BinaryFileHandler_new_def second_record_invalid_input_def
      OFFLOAD_BUNDLER_MAGIC_STR_def Read8byteIntegerFromBuffer_def add64_def StringMap_end_def
      StringMap_begin_def StringMap_contains_def StringMap_assign_def Let_def
      Binary_ReadHeader_loop.simps Binary_ReadBundleStart_def StringMap_deref_def)

subsection \<open>Writing the archives\<close>







subsection \<open>String maps with distinct keys\<close>

lemma StringMap_assign_fresh:
  "k \<notin> fst ` set m \<Longrightarrow> StringMap_assign m k v = m @ [(k, v)]"
  by (simp add: StringMap_assign_def map_of_eq_None_iff)

lemma build_Worklist_distinct:
  "distinct (map fst W @ Ts) \<Longrightarrow> length Ts \<le> length Outs \<Longrightarrow>
   build_Worklist Ts Outs W = Inr (W @ zip Ts Outs)"
proof (induction Ts Outs W rule: build_Worklist.induct)
  case (1 Outputs W)
  then show ?case by simp
next
  case (2 Tr Trs W)
  then show ?case by simp
next
  case (3 Tr Trs Output Outputs W)
  have fresh: "Tr \<notin> fst ` set W" using 3(2) by auto
  have "distinct (map fst (StringMap_assign W Tr Output) @ Trs)"
    using 3(2) by (simp add: StringMap_assign_fresh [OF fresh])
  from 3(1) [OF this] 3(3) show ?case
    by (simp add: StringMap_assign_fresh [OF fresh])
qed

lemma map_filter_all_Some:
  "\<forall>x \<in> set xs. f x = Some (g x) \<Longrightarrow> List.map_filter f xs = map g xs"
  by (induction xs) (simp_all add: List.map_filter_simps)

lemma StringMap_iteration_permutation:
  assumes d: "distinct (map fst m)"
    and p: "mset (bucket_order E (map fst m)) = mset (map fst m)"
  shows "mset (StringMap_iteration E m) = mset m"
proof -
  have s: "set (bucket_order E (map fst m)) = set (map fst m)"
    using p by (metis set_mset_mset)
  have "\<forall>k \<in> set (bucket_order E (map fst m)). map_option (Pair k) (map_of m k) = Some (k, the (map_of m k))"
    using s by (auto simp: map_of_eq_None_iff [symmetric] image_iff)
       (metis (no_types, lifting) domIff dom_map_of_conv_image_fst image_eqI option.collapse option.map_sel prod.sel(1))
  then have it: "StringMap_iteration E m = map (\<lambda>k. (k, the (map_of m k))) (bucket_order E (map fst m))"
    unfolding StringMap_iteration_def by (rule map_filter_all_Some)
  have "mset (map (\<lambda>k. (k, the (map_of m k))) (bucket_order E (map fst m))) =
        mset (map (\<lambda>k. (k, the (map_of m k))) (map fst m))"
    using p by (metis mset_map)
  also have "map (\<lambda>k. (k, the (map_of m k))) (map fst m) = m"
  proof -
    have "\<forall>x \<in> set m. (fst x, the (map_of m (fst x))) = x"
      using d by (auto simp: map_of_is_SomeI)
    then show ?thesis by (simp add: map_idI)
  qed
  finally show ?thesis by (simp add: it)
qed


lemma StringMap_iteration_set:
  assumes "distinct (map fst m)" "mset (bucket_order E (map fst m)) = mset (map fst m)"
  shows "set (StringMap_iteration E m) = set m" "distinct (map fst (StringMap_iteration E m))"
    "length (StringMap_iteration E m) = length m"
proof -
  have p: "mset (StringMap_iteration E m) = mset m"
    by (rule StringMap_iteration_permutation [OF assms])
  show "set (StringMap_iteration E m) = set m" using p by (metis set_mset_mset)
  show "length (StringMap_iteration E m) = length m" using p by (metis size_mset)
  have "mset (map fst (StringMap_iteration E m)) = mset (map fst m)"
    using p by (metis mset_map)
  then show "distinct (map fst (StringMap_iteration E m))"
    using assms(1) by (metis mset_eq_imp_distinct_iff)
qed

subsection \<open>The files of the entries left in the work list\<close>

lemma create_host_or_empty_files:
  assumes "\<forall>En \<in> set W. can_open_for_write E (snd En)"
    and "distinct (map snd W)"
  shows "\<exists>fs'. create_host_or_empty E Input W fs = Inr fs' \<and>
           (\<forall>En \<in> set W. fs' (snd En) =
               Some (if hasHostKind (OffloadTargetInfo_of E (fst En)) then Input else [])) \<and>
           (\<forall>p. p \<notin> snd ` set W \<longrightarrow> fs' p = fs p)"
  using assms
proof (induction W arbitrary: fs)
  case Nil
  then show ?case by simp
next
  case (Cons En W)
  let ?fs1 = "fs(snd En \<mapsto> (if hasHostKind (OffloadTargetInfo_of E (fst En)) then Input else []))"
  have o: "\<forall>En \<in> set W. can_open_for_write E (snd En)" and d: "distinct (map snd W)"
    and fresh: "snd En \<notin> snd ` set W" and opn: "can_open_for_write E (snd En)"
    using Cons.prems by auto
  from Cons.IH [OF o d, of ?fs1] obtain fs' where
    r: "create_host_or_empty E Input W ?fs1 = Inr fs'"
    and a: "\<forall>En \<in> set W. fs' (snd En) =
               Some (if hasHostKind (OffloadTargetInfo_of E (fst En)) then Input else [])"
    and b: "\<forall>p. p \<notin> snd ` set W \<longrightarrow> fs' p = ?fs1 p" by blast
  have "fs' (snd En) = Some (if hasHostKind (OffloadTargetInfo_of E (fst En)) then Input else [])"
    using b fresh by simp
  moreover have "\<forall>p. p \<notin> snd ` set (En # W) \<longrightarrow> fs' p = fs p" using b by auto
  ultimately show ?case using r a opn by auto
qed

lemma UnbundleFiles_loop_no_match:
  assumes "starts_only E Input FH ids"
    and "\<forall>t \<in> set ids. t \<noteq> [] \<and>
           (\<forall>w \<in> set W. \<not> isCodeObjectCompatible E BC (OffloadTargetInfo_of E t)
                              (OffloadTargetInfo_of E (fst w)))"
  shows "\<exists>FH'. UnbundleFiles_loop E BC Input (FH, W, fs, found) = Some (Inr (FH', W, fs, found))"
  using assms
proof (induction ids arbitrary: FH)
  case Nil
  then obtain FH1 where "ReadBundleStart E FH Input = Inr (None, FH1)"
    by (auto split: sum.splits option.splits)
  then show ?case by (subst UnbundleFiles_loop.simps) simp
next
  case (Cons t ts)
  from Cons.prems(1) obtain FH1 where s: "ReadBundleStart E FH Input = Inr (Some t, FH1)"
    and rest: "starts_only E Input FH1 ts" by (auto split: sum.splits option.splits)
  have ne: "t \<noteq> []" using Cons.prems(2) by simp
  have nf: "find (\<lambda>Output. isCodeObjectCompatible E BC (OffloadTargetInfo_of E t)
                     (OffloadTargetInfo_of E (fst Output))) W = None"
    using Cons.prems(2) by (auto simp: find_None_iff)
  have "\<forall>t \<in> set ts. t \<noteq> [] \<and>
           (\<forall>w \<in> set W. \<not> isCodeObjectCompatible E BC (OffloadTargetInfo_of E t)
                              (OffloadTargetInfo_of E (fst w)))"
    using Cons.prems(2) by simp
  from Cons.IH [OF rest this] obtain FH' where
    "UnbundleFiles_loop E BC Input (FH1, W, fs, found) = Some (Inr (FH', W, fs, found))" by blast
  then show ?case by (subst UnbundleFiles_loop.simps) (simp add: s ne nf)
qed

lemma example_kinds:
  "hasHostKind (OffloadTargetInfo_of example_collab ''host-x86_64-unknown-linux-gnu'')"
  "\<not> hasHostKind (OffloadTargetInfo_of example_collab ''hip-amdgcn-amd-amdhsa--gfx906'')"
  by (simp_all add: hasHostKind_def OffloadTargetInfo_of_def example_collab_def StringRef_split_def
      StringRef_rsplit_def)

lemma unmatched_example_starts:
  "starts_only example_collab unmatched_example_input (TextFH (TextFileHandler_new '';''))
     [''openmp-nvptx64-nvidia-cuda--sm_70'']"
proof -
  let ?H = "TextFileHandler_new '';''"
  have 1: "ReadBundleStart example_collab (TextFH ?H) unmatched_example_input =
             Inr (Some ''openmp-nvptx64-nvidia-cuda--sm_70'', TextFH (?H\<lparr>ReadChars := 71\<rparr>))"
    by (simp add: ReadBundleStart_def Text_ReadBundleStart_def TextFileHandler_new_def
        StringRef_find_def OFFLOAD_BUNDLER_MAGIC_STR_def unmatched_example_input_def npos_def
        add64_def Let_def)
  have 2: "ReadBundleStart example_collab (TextFH (?H\<lparr>ReadChars := 71\<rparr>)) unmatched_example_input =
             Inr (None, TextFH (?H\<lparr>ReadChars := npos\<rparr>))"
    by (simp add: ReadBundleStart_def Text_ReadBundleStart_def TextFileHandler_new_def
        StringRef_find_def OFFLOAD_BUNDLER_MAGIC_STR_def unmatched_example_input_def Let_def)
  show ?thesis using 1 2 by simp
qed

lemma unmatched_example_incompatible:
  "\<not> isCodeObjectCompatible example_collab BC
       (OffloadTargetInfo_of example_collab ''openmp-nvptx64-nvidia-cuda--sm_70'')
       (OffloadTargetInfo_of example_collab ''host-x86_64-unknown-linux-gnu'')"
  "\<not> HipOpenmpCompatible BC \<Longrightarrow>
   \<not> isCodeObjectCompatible example_collab BC
       (OffloadTargetInfo_of example_collab ''openmp-nvptx64-nvidia-cuda--sm_70'')
       (OffloadTargetInfo_of example_collab ''hip-amdgcn-amd-amdhsa--gfx906'')"
  by (simp_all add: isCodeObjectCompatible_def OffloadTargetInfo_eq_def isOffloadKindCompatible_def
      OffloadTargetInfo_of_def example_collab_def StringRef_split_def StringRef_rsplit_def
      starts_with_insensitive_def ascii_tolower_def Let_def StringRef_find_def)

lemma sort_two_targets:
  "sort [''host-x86_64-unknown-linux-gnu'', ''hip-amdgcn-amd-amdhsa--gfx906''] =
     [''hip-amdgcn-amd-amdhsa--gfx906'', ''host-x86_64-unknown-linux-gnu'']"
  by (simp add: less_eq_char_def)

text \<open>
  Claim C3, amended.  Let no bundle of the input match a requested target: advanced by
  \<open>ReadBundleStart\<close> alone, the handler finds the bundles with the identifiers \<open>ids\<close> and
  then none (\<open>ids\<close> is empty for an input without bundles), every identifier is not empty
  and its target is compatible with no requested target.  Let the target names be
  pairwise distinct, and the output paths, one per target, be pairwise distinct and
  writable.  If \<open>AllowMissingBundles\<close> is set or no target is requested, \<open>UnbundleFiles\<close>
  returns success, the output of every target of host kind holds the bytes of the input,
  the output of every other target is empty, and no other file is changed.  If
  \<open>AllowMissingBundles\<close> is not set and a target is requested, \<open>UnbundleFiles\<close> returns
  the error that lists the sorted target names, and no file is changed.
\<close>

theorem unbundle_no_matching_bundle:
  assumes inp: "InputFileNames BC = InputFileName # rest" and fl: "fs InputFileName = Some Input"
    and fh: "CreateFileHandler E BC Input = Inr FH"
    and rh: "ReadHeader FH Input = Inr FH1"
    and ids: "starts_only E Input FH1 ids"
    and nomatch: "\<forall>t \<in> set ids. t \<noteq> [] \<and>
           (\<forall>T \<in> set (TargetNames BC).
              \<not> isCodeObjectCompatible E BC (OffloadTargetInfo_of E t) (OffloadTargetInfo_of E T))"
    and dist: "distinct (TargetNames BC)"
    and len: "length (OutputFileNames BC) = length (TargetNames BC)"
    and douts: "distinct (OutputFileNames BC)"
    and opn: "\<forall>p \<in> set (OutputFileNames BC). can_open_for_write E p"
    and perm: "mset (bucket_order E (TargetNames BC)) = mset (TargetNames BC)"
  shows "(AllowMissingBundles BC \<or> TargetNames BC = [] \<longrightarrow>
          (\<exists>fs'. UnbundleFiles E BC fs = Some (Inr fs') \<and>
             (\<forall>i < length (TargetNames BC).
                fs' (OutputFileNames BC ! i) =
                  Some (if hasHostKind (OffloadTargetInfo_of E (TargetNames BC ! i)) then Input else [])) \<and>
             (\<forall>p. p \<notin> set (OutputFileNames BC) \<longrightarrow> fs' p = fs p))) \<and>
         (\<not> AllowMissingBundles BC \<and> TargetNames BC \<noteq> [] \<longrightarrow>
          UnbundleFiles E BC fs =
            Some (Inl (StringError (missing_bundles_message (sort (TargetNames BC))), fs)))"
proof -
  define W where "W = zip (TargetNames BC) (OutputFileNames BC)"
  define It where "It = StringMap_iteration E W"
  have keys: "map fst W = TargetNames BC" and vals: "map snd W = OutputFileNames BC"
    using len by (simp_all add: W_def)
  have bw: "build_Worklist (TargetNames BC) (OutputFileNames BC) [] = Inr W"
    using build_Worklist_distinct [of "[]" "TargetNames BC" "OutputFileNames BC"] dist len
    by (simp add: W_def)
  have it: "set It = set W" "length It = length W" and im: "mset It = mset W"
    using StringMap_iteration_set [of W E] StringMap_iteration_permutation [of W E]
    by (simp_all add: keys dist perm It_def)
  have "\<forall>t \<in> set ids. t \<noteq> [] \<and>
           (\<forall>w \<in> set It. \<not> isCodeObjectCompatible E BC (OffloadTargetInfo_of E t)
                              (OffloadTargetInfo_of E (fst w)))"
    using nomatch it(1) keys by (metis (no_types, lifting) image_eqI set_map)
  from UnbundleFiles_loop_no_match [OF ids this, of fs False] obtain FH' where
    loop: "UnbundleFiles_loop E BC Input (FH1, It, fs, False) = Some (Inr (FH', It, fs, False))"
    by blast
  have li: "length It = length (TargetNames BC)" using it(2) len by (simp add: W_def)
  have ne: "(It = []) = (TargetNames BC = [])"
    using li by (metis length_0_conv)
  have e1: "UnbundleFiles E BC fs =
      (if \<not> AllowMissingBundles BC \<and> It \<noteq> []
       then Some (Inl (StringError (missing_bundles_message (sort (map fst It))), fs))
       else if length It = length (TargetNames BC)
       then Some (create_host_or_empty E Input It fs)
       else if \<not> (False \<or> HostInputIndex BC = no_host_index \<or> AllowMissingBundles BC)
       then Some (Inl (StringError (''Can'' @ [CHR 0x27] @ ''t find bundle for the host target''), fs))
       else Some (create_empty E It fs))"
    unfolding UnbundleFiles_def inp list.case getFileOrSTDIN_def fl option.case sum.case fh rh bw
      It_def [symmetric] loop prod.case ..
  have start: "UnbundleFiles E BC fs =
      (if \<not> AllowMissingBundles BC \<and> TargetNames BC \<noteq> []
       then Some (Inl (StringError (missing_bundles_message (sort (map fst It))), fs))
       else Some (create_host_or_empty E Input It fs))"
    unfolding e1 li ne by simp
  show ?thesis
  proof (intro conjI impI)
    assume a: "AllowMissingBundles BC \<or> TargetNames BC = []"
    have o: "\<forall>En \<in> set It. can_open_for_write E (snd En)"
      using opn it(1) vals by (metis (no_types, lifting) image_eqI set_map)
    have "mset (map snd It) = mset (map snd W)" using im by (metis mset_map)
    then have d: "distinct (map snd It)"
      using douts vals by (metis mset_eq_imp_distinct_iff)
    from create_host_or_empty_files [OF o d, of Input fs] obtain fs' where
      r: "create_host_or_empty E Input It fs = Inr fs'"
      and h: "\<forall>En \<in> set It. fs' (snd En) =
                 Some (if hasHostKind (OffloadTargetInfo_of E (fst En)) then Input else [])"
      and b: "\<forall>p. p \<notin> snd ` set It \<longrightarrow> fs' p = fs p" by blast
    have run: "UnbundleFiles E BC fs = Some (Inr fs')"
      using a by (auto simp: start r)
    have sn: "snd ` set It = set (OutputFileNames BC)"
      using it(1) vals by (metis set_map)
    have each: "\<forall>i < length (TargetNames BC). fs' (OutputFileNames BC ! i) =
                  Some (if hasHostKind (OffloadTargetInfo_of E (TargetNames BC ! i)) then Input else [])"
    proof (intro allI impI)
      fix i assume i: "i < length (TargetNames BC)"
      then have "(TargetNames BC ! i, OutputFileNames BC ! i) \<in> set W"
        unfolding W_def using len by (metis in_set_zip fst_conv snd_conv)
      then have "(TargetNames BC ! i, OutputFileNames BC ! i) \<in> set It" using it(1) by simp
      from h [rule_format, OF this] show "fs' (OutputFileNames BC ! i) =
                  Some (if hasHostKind (OffloadTargetInfo_of E (TargetNames BC ! i)) then Input else [])"
        by simp
    qed
    show "\<exists>fs'. UnbundleFiles E BC fs = Some (Inr fs') \<and>
             (\<forall>i < length (TargetNames BC).
                fs' (OutputFileNames BC ! i) =
                  Some (if hasHostKind (OffloadTargetInfo_of E (TargetNames BC ! i)) then Input else [])) \<and>
             (\<forall>p. p \<notin> set (OutputFileNames BC) \<longrightarrow> fs' p = fs p)"
      using run each b sn by auto
  next
    assume a: "\<not> AllowMissingBundles BC \<and> TargetNames BC \<noteq> []"
    have "mset (map fst It) = mset (TargetNames BC)"
      using im keys by (metis mset_map)
    then have "sort (map fst It) = sort (TargetNames BC)"
      by (intro properties_for_sort) simp_all
    then show "UnbundleFiles E BC fs =
            Some (Inl (StringError (missing_bundles_message (sort (TargetNames BC))), fs))"
      using a by (simp add: start)
  qed
qed

text \<open>The theorem at the example: a file whose only bundle is for the target \<open>sm_70\<close>,
  unbundled for a host and a device target, once with and once without
  \<open>AllowMissingBundles\<close>.\<close>

theorem unbundle_no_matching_bundle_witness:
  "(\<exists>fs'. UnbundleFiles example_collab (plain_example_config\<lparr>AllowMissingBundles := True\<rparr>)
            unmatched_example_files = Some (Inr fs') \<and>
          fs' ''host.ll'' = Some unmatched_example_input \<and> fs' ''gfx906.ll'' = Some []) \<and>
   UnbundleFiles example_collab plain_example_config unmatched_example_files =
     Some (Inl (StringError (missing_bundles_message
       [''hip-amdgcn-amd-amdhsa--gfx906'', ''host-x86_64-unknown-linux-gnu'']),
       unmatched_example_files))"
proof -
  let ?BC = "plain_example_config\<lparr>AllowMissingBundles := True\<rparr>"
  let ?H = "TextFileHandler_new '';''"
  have cfg: "TargetNames plain_example_config =
               [''host-x86_64-unknown-linux-gnu'', ''hip-amdgcn-amd-amdhsa--gfx906'']"
    "OutputFileNames plain_example_config = [''host.ll'', ''gfx906.ll'']"
    "InputFileNames plain_example_config = [''plain.ll'']"
    "FilesType plain_example_config = ''ll''" "\<not> AllowMissingBundles plain_example_config"
    "\<not> HipOpenmpCompatible plain_example_config"
    by (simp_all add: plain_example_config_def example_config_def)
  have fl: "unmatched_example_files ''plain.ll'' = Some unmatched_example_input"
    by (simp add: unmatched_example_files_def)
  have nm: "\<forall>t \<in> set [''openmp-nvptx64-nvidia-cuda--sm_70'']. t \<noteq> [] \<and>
           (\<forall>T \<in> set (TargetNames BC).
              \<not> isCodeObjectCompatible example_collab BC (OffloadTargetInfo_of example_collab t)
                  (OffloadTargetInfo_of example_collab T))"
    if "TargetNames BC = TargetNames plain_example_config" "\<not> HipOpenmpCompatible BC" for BC
    using that unmatched_example_incompatible [of BC] by (simp add: cfg)
  have 1: "\<exists>fs'. UnbundleFiles example_collab ?BC unmatched_example_files = Some (Inr fs') \<and>
          fs' ''host.ll'' = Some unmatched_example_input \<and> fs' ''gfx906.ll'' = Some []"
  proof -
    have "\<exists>fs'. UnbundleFiles example_collab ?BC unmatched_example_files = Some (Inr fs') \<and>
             (\<forall>i < length (TargetNames ?BC).
                fs' (OutputFileNames ?BC ! i) =
                  Some (if hasHostKind (OffloadTargetInfo_of example_collab (TargetNames ?BC ! i))
                        then unmatched_example_input else [])) \<and>
             (\<forall>p. p \<notin> set (OutputFileNames ?BC) \<longrightarrow> fs' p = unmatched_example_files p)"
      using unbundle_no_matching_bundle [where BC = ?BC and E = example_collab
          and InputFileName = "''plain.ll''" and rest = "[]" and fs = unmatched_example_files
          and Input = unmatched_example_input and FH = "TextFH ?H" and ?FH1.0 = "TextFH ?H",
          OF _ fl _ _ unmatched_example_starts nm]
      by (simp add: cfg CreateFileHandler_def ReadHeader_def example_collab_def)
    then obtain fs' where r: "UnbundleFiles example_collab ?BC unmatched_example_files = Some (Inr fs')"
      and a: "\<forall>i < length (TargetNames ?BC).
                fs' (OutputFileNames ?BC ! i) =
                  Some (if hasHostKind (OffloadTargetInfo_of example_collab (TargetNames ?BC ! i))
                        then unmatched_example_input else [])" by blast
    have "fs' ''host.ll'' = Some unmatched_example_input"
      using a [rule_format, of 0] example_kinds by (simp add: cfg)
    moreover have "fs' ''gfx906.ll'' = Some []"
      using a [rule_format, of 1] example_kinds by (simp add: cfg)
    ultimately show ?thesis using r by blast
  qed
  have 2: "UnbundleFiles example_collab plain_example_config unmatched_example_files =
     Some (Inl (StringError (missing_bundles_message
       [''hip-amdgcn-amd-amdhsa--gfx906'', ''host-x86_64-unknown-linux-gnu'']),
       unmatched_example_files))"
    using unbundle_no_matching_bundle [where BC = plain_example_config and E = example_collab
          and InputFileName = "''plain.ll''" and rest = "[]" and fs = unmatched_example_files
          and Input = unmatched_example_input and FH = "TextFH ?H" and ?FH1.0 = "TextFH ?H",
          OF _ fl _ _ unmatched_example_starts nm]
    by (simp add: cfg CreateFileHandler_def ReadHeader_def example_collab_def sort_two_targets)
  from 1 2 show ?thesis by blast
qed

text \<open>
  Claim C3 as stated fails: without \<open>AllowMissingBundles\<close>, unbundling the plain file of
  the example for a host and a device target returns the error that lists the targets
  left in the work list, before any output is created.  The other conditions of the
  amended claim are needed as well.  With \<open>AllowMissingBundles\<close> set, a start marker
  with an empty identifier stops the run at the assertion on the identifier.  With the
  host target requested twice, the work list has one entry for two target names, so the
  input is not taken for a host artifact: the second output is created empty and the
  first one not at all.
\<close>

theorem unbundle_no_matching_bundle_counterexample:
  "UnbundleFiles example_collab plain_example_config plain_example_files =
     Some (Inl (StringError
       (''Can'' @ [CHR 0x27] @ ''t find bundles for hip-amdgcn-amd-amdhsa--gfx906 and host-x86_64-unknown-linux-gnu''),
       plain_example_files)) \<and>
   UnbundleFiles example_collab (plain_example_config\<lparr>AllowMissingBundles := True\<rparr>)
       empty_id_example_files =
     Some (Inl (AssertionFailed ''!CurTriple.empty()'', empty_id_example_files)) \<and>
   UnbundleFiles example_collab twice_host_example_config plain_example_files =
     Some (Inr (plain_example_files(''host2.ll'' \<mapsto> [])))"
proof -
  let ?H = "TextFileHandler_new '';''"
  let ?W = "[(''host-x86_64-unknown-linux-gnu'', ''host.ll''), (''hip-amdgcn-amd-amdhsa--gfx906'', ''gfx906.ll'')]"
  have cfg: "InputFileNames plain_example_config = [''plain.ll'']"
    "FilesType plain_example_config = ''ll''" "\<not> AllowMissingBundles plain_example_config"
    by (simp_all add: plain_example_config_def example_config_def)
  have it: "StringMap_iteration example_collab ?W = ?W"
    "StringMap_iteration example_collab [(''host-x86_64-unknown-linux-gnu'', ''host2.ll'')] =
       [(''host-x86_64-unknown-linux-gnu'', ''host2.ll'')]"
    by (simp_all add: StringMap_iteration_def example_collab_def List.map_filter_simps)
  have bw: "build_Worklist (TargetNames BC) (OutputFileNames BC) [] = Inr ?W"
    if "TargetNames BC = TargetNames plain_example_config"
       "OutputFileNames BC = OutputFileNames plain_example_config" for BC
    using that by (simp add: plain_example_config_def example_config_def StringMap_assign_def)
  have ln: "length (TargetNames plain_example_config) = 2"
    by (simp add: plain_example_config_def example_config_def)
  have rb: "ReadBundleStart example_collab (TextFH ?H) ''hello'' = Inr (None, TextFH (?H\<lparr>ReadChars := npos\<rparr>))"
    by (simp add: ReadBundleStart_def Text_ReadBundleStart_def TextFileHandler_new_def
        StringRef_find_def OFFLOAD_BUNDLER_MAGIC_STR_def)
  have loop: "UnbundleFiles_loop example_collab BC ''hello'' (TextFH ?H, W, fs, False) =
                Some (Inr (if W = [] then TextFH ?H else TextFH (?H\<lparr>ReadChars := npos\<rparr>), W, fs, False))"
    for BC W fs
    by (subst UnbundleFiles_loop.simps) (simp add: rb)
  have fl: "plain_example_files ''plain.ll'' = Some ''hello''"
    by (simp add: plain_example_files_def)
  have 1: "UnbundleFiles example_collab plain_example_config plain_example_files =
     Some (Inl (StringError
       (''Can'' @ [CHR 0x27] @ ''t find bundles for hip-amdgcn-amd-amdhsa--gfx906 and host-x86_64-unknown-linux-gnu''),
       plain_example_files))"
    unfolding UnbundleFiles_def
    by (simp add: cfg getFileOrSTDIN_def fl CreateFileHandler_def ReadHeader_def bw it loop ln
        sort_two_targets missing_bundles_message_def enumerate_eq_zip)
  have rbe: "ReadBundleStart example_collab (TextFH ?H) empty_id_example_input =
             Inr (Some [], TextFH (?H\<lparr>ReadChars := 38\<rparr>))"
    by (simp add: ReadBundleStart_def Text_ReadBundleStart_def TextFileHandler_new_def
        StringRef_find_def OFFLOAD_BUNDLER_MAGIC_STR_def npos_def add64_def Let_def
        empty_id_example_input_def)
  have loope: "UnbundleFiles_loop example_collab BC empty_id_example_input
                 (TextFH ?H, ?W, fs, False) = Some (Inl (AssertionFailed ''!CurTriple.empty()'', fs))"
    for BC fs
    by (subst UnbundleFiles_loop.simps) (simp add: rbe)
  have 2: "UnbundleFiles example_collab (plain_example_config\<lparr>AllowMissingBundles := True\<rparr>)
       empty_id_example_files = Some (Inl (AssertionFailed ''!CurTriple.empty()'', empty_id_example_files))"
    unfolding UnbundleFiles_def
    by (simp add: cfg getFileOrSTDIN_def empty_id_example_files_def CreateFileHandler_def
        ReadHeader_def bw it loope plain_example_config_def [symmetric])
  have cfg2: "InputFileNames twice_host_example_config = [''plain.ll'']"
    "length (TargetNames twice_host_example_config) = 2"
    "HostInputIndex twice_host_example_config \<noteq> no_host_index"
    "FilesType twice_host_example_config = ''ll''" "AllowMissingBundles twice_host_example_config"
    by (simp_all add: twice_host_example_config_def example_config_def no_host_index_def)
  have bw2: "build_Worklist (TargetNames twice_host_example_config)
               (OutputFileNames twice_host_example_config) [] =
             Inr [(''host-x86_64-unknown-linux-gnu'', ''host2.ll'')]"
    by (simp add: twice_host_example_config_def example_config_def StringMap_assign_def)
  have cw: "can_open_for_write example_collab p" for p
    by (simp add: example_collab_def)
  have 3: "UnbundleFiles example_collab twice_host_example_config plain_example_files =
     Some (Inr (plain_example_files(''host2.ll'' \<mapsto> [])))"
    unfolding UnbundleFiles_def
    by (simp add: cfg2 getFileOrSTDIN_def fl CreateFileHandler_def ReadHeader_def bw2 it loop cw)
  from 1 2 3 show ?thesis by simp
qed

subsection \<open>Little-endian integers\<close>

lemma length_le_bytes [simp]: "length (le_bytes k v) = k"
  by (induction k arbitrary: v) simp_all

lemma le_value_le_bytes: "le_value (le_bytes k v) = v mod 256 ^ k"
proof (induction k arbitrary: v)
  case 0
  then show ?case by simp
next
  case (Suc k)
  have "le_value (le_bytes (Suc k) v) = v mod 256 + 256 * ((v div 256) mod 256 ^ k)"
    by (simp add: Suc)
  also have "\<dots> = v mod 256 ^ Suc k"
    by (simp add: mod_mult2_eq)
  finally show ?case .
qed

lemma Read8byteIntegerFromBuffer_le_bytes:
  "v < 2 ^ 64 \<Longrightarrow>
   Read8byteIntegerFromBuffer (pre @ le_bytes 8 v @ rest) (length pre) = Inr v"
  by (simp add: Read8byteIntegerFromBuffer_def le_value_le_bytes)



subsection \<open>The layout of the records\<close>










lemma chained_le_end: "chained b rs \<Longrightarrow> b \<le> records_end b rs"
proof (induction rs arbitrary: b)
  case Nil
  then show ?case by simp
next
  case (Cons r rs)
  have "Offset (snd r) + Size (snd r) \<le> records_end (Offset (snd r) + Size (snd r)) rs"
    using Cons by simp
  then show ?case using Cons.prems by simp
qed

lemma chained_nth_end:
  "chained b rs \<Longrightarrow> i < length rs \<Longrightarrow>
   b \<le> Offset (snd (rs ! i)) \<and> Offset (snd (rs ! i)) + Size (snd (rs ! i)) \<le> records_end b rs"
proof (induction rs arbitrary: b i)
  case Nil
  then show ?case by simp
next
  case (Cons r rs)
  show ?case
  proof (cases i)
    case 0
    then show ?thesis using Cons.prems chained_le_end [of "Offset (snd r) + Size (snd r)" rs] by simp
  next
    case (Suc j)
    then have "Offset (snd r) + Size (snd r) \<le> Offset (snd (rs ! j)) \<and>
               Offset (snd (rs ! j)) + Size (snd (rs ! j)) \<le> records_end (Offset (snd r) + Size (snd r)) rs"
      using Cons.IH [of "Offset (snd r) + Size (snd r)" j] Cons.prems by simp
    then show ?thesis using Cons.prems Suc by simp
  qed
qed


lemma chained_from:
  "chained b rs \<Longrightarrow> r \<in> set rs \<Longrightarrow> b \<le> Offset (snd r)"
  using chained_nth_end [of b rs] by (auto simp: in_set_conv_nth)

subsection \<open>The map of the records\<close>



subsection \<open>Writing the binary header\<close>




subsection \<open>Writing the payloads of a binary container\<close>





subsection \<open>The layout of a binary container\<close>





end
